theory Spec2Isabelle
  imports Complex_Main "HOL-Library.AList" "HOL-Library.Sublist" "HOL-Library.Word"
begin

section \<open>JavaScript numbers and typed arrays\<close>

text \<open>
  A JavaScript number is a real number or one of the three special values. Every
  arithmetic operation yields the binary64 value nearest the exact result (\<open>dround\<close>),
  every store into a \<open>Float32Array\<close> the nearest binary32 value (\<open>toFloat32\<close>), ties going
  to the even significand and results beyond the largest finite value to an infinity. The
  one thing left out is the sign of zero: \<open>-0\<close> and \<open>+0\<close> are the same number, and a
  division by zero yields the infinity the positive zero gives.
\<close>

datatype number = NaN | NegInf | Fin real | PosInf

text \<open>
  Modelled from the spec: the enumeration \<open>AttributeName\<close> is declared in \<open>./Cocos\<close>,
  which is not among the sources; its members are the nine semantic tags that
  \<open>gltfAttributeMaps\<close> names.
\<close>

datatype AttributeName =
    ATTR_POSITION | ATTR_NORMAL | ATTR_TANGENT
  | ATTR_TEX_COORD | ATTR_TEX_COORD1 | ATTR_TEX_COORD2
  | ATTR_COLOR | ATTR_JOINTS | ATTR_WEIGHTS

text \<open>What the code throws: the two errors of the language, and the two of its own
  (\<open>Multiple Mesh is not supported.\<close> and \<open>The ... is not supported.\<close>).\<close>

datatype error = TypeError | RangeError | MultipleMesh | NotSupported AttributeName

definition signedInf :: "real \<Rightarrow> number" where
  "signedInf s = (if s = 0 then NaN else if 0 < s then PosInf else NegInf)"

text \<open>Rounding to the nearest integer, a tie going to the even one.\<close>

definition rne :: "real \<Rightarrow> int" where
  "rne r =
     (let f = \<lfloor>r\<rfloor>; d = r - of_int f
      in if d < 1 / 2 then f else if 1 / 2 < d then f + 1 else if even f then f else f + 1)"

definition pow2 :: "int \<Rightarrow> real" where
  "pow2 k = (if 0 \<le> k then 2 ^ nat k else 1 / 2 ^ nat (- k))"

text \<open>
  Rounding to a binary format of precision \<open>p\<close> with exponents from \<open>emin\<close> to \<open>emax\<close>:
  \<open>e\<close> is the exponent of the leading bit of \<open>x\<close>, or \<open>emin\<close> for a subnormal, \<open>q\<close> the
  distance between neighbouring values of the format around \<open>x\<close>, and \<open>y\<close> the multiple of
  \<open>q\<close> nearest \<open>x\<close>. binary32 has \<open>p = 24\<close> and exponents -126 to 127, binary64 has
  \<open>p = 53\<close> and exponents -1022 to 1023.
\<close>

definition roundBinary :: "nat \<Rightarrow> int \<Rightarrow> int \<Rightarrow> real \<Rightarrow> number" where
  "roundBinary p emin emax x =
     (if x = 0 then Fin 0
      else
        (let e = max emin \<lfloor>log 2 \<bar>x\<bar>\<rfloor>;
             q = pow2 (e - int p + 1);
             y = of_int (rne (x / q)) * q
         in if pow2 (emax + 1) \<le> \<bar>y\<bar> then signedInf x else Fin y))"

definition fround :: "real \<Rightarrow> number" where
  "fround = roundBinary 24 (- 126) 127"

definition dround :: "real \<Rightarrow> number" where
  "dround = roundBinary 53 (- 1022) 1023"

text \<open>The value a \<open>Float32Array\<close> holds after a number is stored in it.\<close>

fun toFloat32 :: "number \<Rightarrow> number" where
  "toFloat32 (Fin x) = fround x"
| "toFloat32 NaN = NaN"
| "toFloat32 PosInf = PosInf"
| "toFloat32 NegInf = NegInf"

fun js_neg :: "number \<Rightarrow> number" where
  "js_neg NaN = NaN"
| "js_neg NegInf = PosInf"
| "js_neg PosInf = NegInf"
| "js_neg (Fin x) = Fin (- x)"

fun js_add :: "number \<Rightarrow> number \<Rightarrow> number" where
  "js_add (Fin x) (Fin y) = dround (x + y)"
| "js_add NaN b = NaN"
| "js_add a NaN = NaN"
| "js_add PosInf NegInf = NaN"
| "js_add NegInf PosInf = NaN"
| "js_add PosInf b = PosInf"
| "js_add a PosInf = PosInf"
| "js_add NegInf b = NegInf"
| "js_add a NegInf = NegInf"

definition js_sub :: "number \<Rightarrow> number \<Rightarrow> number" where
  "js_sub a b = js_add a (js_neg b)"

fun js_mul :: "number \<Rightarrow> number \<Rightarrow> number" where
  "js_mul (Fin x) (Fin y) = dround (x * y)"
| "js_mul NaN b = NaN"
| "js_mul a NaN = NaN"
| "js_mul PosInf (Fin y) = signedInf y"
| "js_mul NegInf (Fin y) = signedInf (- y)"
| "js_mul (Fin x) PosInf = signedInf x"
| "js_mul (Fin x) NegInf = signedInf (- x)"
| "js_mul PosInf PosInf = PosInf"
| "js_mul NegInf NegInf = PosInf"
| "js_mul PosInf NegInf = NegInf"
| "js_mul NegInf PosInf = NegInf"

text \<open>Division: \<open>x / 0\<close> is an infinity of the sign of \<open>x\<close> (the zero is taken positive),
  \<open>0 / 0\<close> and \<open>Infinity / Infinity\<close> are \<open>NaN\<close>.\<close>

fun js_div :: "number \<Rightarrow> number \<Rightarrow> number" where
  "js_div (Fin x) (Fin y) = (if y = 0 then signedInf x else dround (x / y))"
| "js_div NaN b = NaN"
| "js_div a NaN = NaN"
| "js_div (Fin x) PosInf = Fin 0"
| "js_div (Fin x) NegInf = Fin 0"
| "js_div PosInf (Fin y) = (if 0 \<le> y then PosInf else NegInf)"
| "js_div NegInf (Fin y) = (if 0 \<le> y then NegInf else PosInf)"
| "js_div PosInf b = NaN"
| "js_div NegInf b = NaN"

fun js_lt :: "number \<Rightarrow> number \<Rightarrow> bool" where
  "js_lt (Fin x) (Fin y) = (x < y)"
| "js_lt NaN b = False"
| "js_lt a NaN = False"
| "js_lt PosInf b = False"
| "js_lt a NegInf = False"
| "js_lt NegInf b = True"
| "js_lt a PosInf = True"

definition js_gt :: "number \<Rightarrow> number \<Rightarrow> bool" where
  "js_gt a b = js_lt b a"

fun Math_sqrt :: "number \<Rightarrow> number" where
  "Math_sqrt (Fin x) = (if x < 0 then NaN else dround (sqrt x))"
| "Math_sqrt PosInf = PosInf"
| "Math_sqrt NegInf = NaN"
| "Math_sqrt NaN = NaN"

fun Math_min :: "number \<Rightarrow> number \<Rightarrow> number" where
  "Math_min NaN b = NaN"
| "Math_min a NaN = NaN"
| "Math_min a b = (if js_lt b a then b else a)"

fun Math_max :: "number \<Rightarrow> number \<Rightarrow> number" where
  "Math_max NaN b = NaN"
| "Math_max a NaN = NaN"
| "Math_max a b = (if js_lt a b then b else a)"

fun isFinite :: "number \<Rightarrow> bool" where
  "isFinite (Fin x) = True"
| "isFinite NaN = False"
| "isFinite PosInf = False"
| "isFinite NegInf = False"

text \<open>
  A typed array (\<open>TypeArray\<close>) is its list of elements. A read yields \<open>undefined\<close>
  (\<open>None\<close>) outside the array or at a key that is not an array index; \<open>ToNumber\<close> of
  \<open>undefined\<close> is \<open>NaN\<close>.
\<close>

type_synonym TypeArray = "number list"

definition ToNumber :: "number option \<Rightarrow> number" where
  "ToNumber v = (case v of None \<Rightarrow> NaN | Some x \<Rightarrow> x)"

definition elemAt :: "'a list \<Rightarrow> nat \<Rightarrow> 'a option" where
  "elemAt xs i = (if i < length xs then Some (xs ! i) else None)"

definition arrayIndex :: "number \<Rightarrow> nat option" where
  "arrayIndex k =
     (case k of
        Fin r \<Rightarrow> (if 0 \<le> r \<and> r = of_int \<lfloor>r\<rfloor> then Some (nat \<lfloor>r\<rfloor>) else None)
      | _ \<Rightarrow> None)"

definition getElem :: "'a list \<Rightarrow> number \<Rightarrow> 'a option" where
  "getElem xs k = (case arrayIndex k of None \<Rightarrow> None | Some i \<Rightarrow> elemAt xs i)"

text \<open>The number of passes of \<open>for (i = 0; i < n / 3; i++)\<close> and of
  \<open>for (i = 0; i < n; i += 3)\<close>: the quotient \<open>n / 3\<close> is not truncated.\<close>

definition passes3 :: "nat \<Rightarrow> nat" where
  "passes3 n = (n + 2) div 3"

fun forEach :: "('a \<Rightarrow> 's \<Rightarrow> error + 's) \<Rightarrow> 'a list \<Rightarrow> 's \<Rightarrow> error + 's" where
  "forEach f [] s = Inr s"
| "forEach f (x # xs) s = (case f x s of Inl e \<Rightarrow> Inl e | Inr s' \<Rightarrow> forEach f xs s')"

section \<open>The gl-matrix operations the code calls\<close>

text \<open>
  The library functions, as gl-matrix 3 defines them (the release that exports
  \<open>ReadonlyVec3\<close>). A vector is a \<open>Float32Array\<close>, here the tuple of its components; a
  function that writes its result into \<open>out\<close> returns the result, each component
  computed in binary64 and stored as binary32. \<open>vec3.set\<close> and \<open>vec2.set\<close> store
  \<open>undefined\<close> as \<open>NaN\<close>. \<open>vec3.normalize\<close> scales by \<open>1 / sqrt(len)\<close> when the squared
  length \<open>len\<close> is positive and by \<open>len\<close> itself otherwise. \<open>vec3.dot\<close> returns a number,
  which is not stored.
\<close>

type_synonym vec2 = "number \<times> number"
type_synonym vec3 = "number \<times> number \<times> number"
type_synonym vec4 = "number \<times> number \<times> number \<times> number"

definition vec2_create :: vec2 where
  "vec2_create = (Fin 0, Fin 0)"

definition vec3_create :: vec3 where
  "vec3_create = (Fin 0, Fin 0, Fin 0)"

definition vec2_set :: "number option \<Rightarrow> number option \<Rightarrow> vec2" where
  "vec2_set x y = (toFloat32 (ToNumber x), toFloat32 (ToNumber y))"

definition vec3_set :: "number option \<Rightarrow> number option \<Rightarrow> number option \<Rightarrow> vec3" where
  "vec3_set x y z = (toFloat32 (ToNumber x), toFloat32 (ToNumber y), toFloat32 (ToNumber z))"

fun vec2_subtract :: "vec2 \<Rightarrow> vec2 \<Rightarrow> vec2" where
  "vec2_subtract (a0, a1) (b0, b1) = (toFloat32 (js_sub a0 b0), toFloat32 (js_sub a1 b1))"

fun vec3_subtract :: "vec3 \<Rightarrow> vec3 \<Rightarrow> vec3" where
  "vec3_subtract (a0, a1, a2) (b0, b1, b2) =
     (toFloat32 (js_sub a0 b0), toFloat32 (js_sub a1 b1), toFloat32 (js_sub a2 b2))"

fun vec3_add :: "vec3 \<Rightarrow> vec3 \<Rightarrow> vec3" where
  "vec3_add (a0, a1, a2) (b0, b1, b2) =
     (toFloat32 (js_add a0 b0), toFloat32 (js_add a1 b1), toFloat32 (js_add a2 b2))"

fun vec3_scale :: "vec3 \<Rightarrow> number \<Rightarrow> vec3" where
  "vec3_scale (a0, a1, a2) b =
     (toFloat32 (js_mul a0 b), toFloat32 (js_mul a1 b), toFloat32 (js_mul a2 b))"

fun vec3_scaleAndAdd :: "vec3 \<Rightarrow> vec3 \<Rightarrow> number \<Rightarrow> vec3" where
  "vec3_scaleAndAdd (a0, a1, a2) (b0, b1, b2) s =
     (toFloat32 (js_add a0 (js_mul b0 s)),
      toFloat32 (js_add a1 (js_mul b1 s)),
      toFloat32 (js_add a2 (js_mul b2 s)))"

fun vec3_dot :: "vec3 \<Rightarrow> vec3 \<Rightarrow> number" where
  "vec3_dot (a0, a1, a2) (b0, b1, b2) =
     js_add (js_add (js_mul a0 b0) (js_mul a1 b1)) (js_mul a2 b2)"

fun vec3_cross :: "vec3 \<Rightarrow> vec3 \<Rightarrow> vec3" where
  "vec3_cross (ax, ay, az) (bx, by, bz) =
     (toFloat32 (js_sub (js_mul ay bz) (js_mul az by)),
      toFloat32 (js_sub (js_mul az bx) (js_mul ax bz)),
      toFloat32 (js_sub (js_mul ax by) (js_mul ay bx)))"

fun vec3_normalize :: "vec3 \<Rightarrow> vec3" where
  "vec3_normalize (x, y, z) =
     (let len = js_add (js_add (js_mul x x) (js_mul y y)) (js_mul z z);
          len = (if js_gt len (Fin 0) then js_div (Fin 1) (Math_sqrt len) else len)
      in (toFloat32 (js_mul x len), toFloat32 (js_mul y len), toFloat32 (js_mul z len)))"

fun vec3_min :: "vec3 \<Rightarrow> vec3 \<Rightarrow> vec3" where
  "vec3_min (a0, a1, a2) (b0, b1, b2) =
     (toFloat32 (Math_min a0 b0), toFloat32 (Math_min a1 b1), toFloat32 (Math_min a2 b2))"

fun vec3_max :: "vec3 \<Rightarrow> vec3 \<Rightarrow> vec3" where
  "vec3_max (a0, a1, a2) (b0, b1, b2) =
     (toFloat32 (Math_max a0 b0), toFloat32 (Math_max a1 b1), toFloat32 (Math_max a2 b2))"

definition vec4_fromValues :: "number \<Rightarrow> number \<Rightarrow> number \<Rightarrow> number \<Rightarrow> vec4" where
  "vec4_fromValues x y z w = (toFloat32 x, toFloat32 y, toFloat32 z, toFloat32 w)"

section \<open>Geometry: the data model\<close>

record BoundingBox =
  bbMin :: vec3
  bbMax :: vec3

text \<open>
  What the \<open>name\<close> of an entry can hold, which is what a read of the object
  \<open>gltfAttributeMaps\<close> can yield: a semantic tag, \<open>undefined\<close>, or the member that the
  object inherits from \<open>Object.prototype\<close> under the key (a function, or the prototype
  itself for \<open>__proto__\<close>). Compared with a semantic tag by \<open>==\<close>, only the same tag is
  equal.
\<close>

datatype nameValue = Tag AttributeName | Undefined | Inherited string

record AttributeData =
  name :: nameValue
  data :: TypeArray

record PrimitiveData =
  indices :: "TypeArray option"
  joints :: "number list option"
  attributeDatas :: "AttributeData list"
  boundingBox :: "BoundingBox option"

record Geometry =
  primitiveDatas :: "PrimitiveData list"

definition findAttribute :: "AttributeData list \<Rightarrow> AttributeName \<Rightarrow> AttributeData option" where
  "findAttribute ads n = find (\<lambda>x. name x = Tag n) ads"

section \<open>Geometry.createVector2, Geometry.createVector3\<close>

definition createVector2 :: "TypeArray \<Rightarrow> number option \<Rightarrow> vec2" where
  "createVector2 array index =
     (let index = js_mul (ToNumber index) (Fin 2)
      in vec2_set (getElem array index) (getElem array (js_add index (Fin 1))))"

definition createVector3 :: "TypeArray \<Rightarrow> number option \<Rightarrow> vec3" where
  "createVector3 array index =
     (let index = js_mul (ToNumber index) (Fin 3)
      in vec3_set (getElem array index) (getElem array (js_add index (Fin 1)))
           (getElem array (js_add index (Fin 2))))"

section \<open>Geometry.computeNormals\<close>

text \<open>\<open>vec3.add(list[index], list[index], d)\<close>: a \<open>TypeError\<close> when \<open>list[index]\<close> is
  \<open>undefined\<close>.\<close>

definition addInto :: "vec3 list \<Rightarrow> number option \<Rightarrow> vec3 \<Rightarrow> error + vec3 list" where
  "addInto vs index d =
     (case arrayIndex (ToNumber index) of
        None \<Rightarrow> Inl TypeError
      | Some j \<Rightarrow>
          (case elemAt vs j of
             None \<Rightarrow> Inl TypeError
           | Some v \<Rightarrow> Inr (vs[j := vec3_add v d])))"

definition addInto3 ::
  "vec3 list \<Rightarrow> number option \<Rightarrow> number option \<Rightarrow> number option \<Rightarrow> vec3 \<Rightarrow> error + vec3 list"
where
  "addInto3 vs index1 index2 index3 d =
     (case addInto vs index1 d of
        Inl e \<Rightarrow> Inl e
      | Inr vs1 \<Rightarrow>
          (case addInto vs1 index2 d of
             Inl e \<Rightarrow> Inl e
           | Inr vs2 \<Rightarrow> addInto vs2 index3 d))"

definition normalStep :: "TypeArray \<Rightarrow> TypeArray \<Rightarrow> nat \<Rightarrow> vec3 list \<Rightarrow> error + vec3 list" where
  "normalStep positionArray indicesArray i normalList =
     (let index1 = elemAt indicesArray (i + 0);
          index2 = elemAt indicesArray (i + 1);
          index3 = elemAt indicesArray (i + 2);
          vertex1 = createVector3 positionArray index1;
          vertex2 = createVector3 positionArray index2;
          vertex3 = createVector3 positionArray index3;
          dir1 = vec3_subtract vertex2 vertex1;
          dir2 = vec3_subtract vertex3 vertex1;
          dir3 = vec3_cross dir1 dir2
      in addInto3 normalList index1 index2 index3 dir3)"

definition computeNormals :: "PrimitiveData \<Rightarrow> error + vec3 list" where
  "computeNormals primitiveData =
     (case findAttribute (attributeDatas primitiveData) ATTR_POSITION of
        None \<Rightarrow> Inl TypeError
      | Some p \<Rightarrow>
          (let positionArray = data p;
               normalList = replicate (passes3 (length positionArray)) vec3_create
           in case indices primitiveData of
                None \<Rightarrow> Inl TypeError
              | Some indicesArray \<Rightarrow>
                  (case forEach (normalStep positionArray indicesArray)
                          (map (\<lambda>k. 3 * k) [0..<passes3 (length indicesArray)]) normalList of
                     Inl e \<Rightarrow> Inl e
                   | Inr normalList \<Rightarrow> Inr (map vec3_normalize normalList))))"

section \<open>Geometry.computeTangents\<close>

text \<open>The value \<open>r\<close> of the pass for triangle \<open>i\<close> (source lines 204 to 222): it depends on
  the index array and the texture coordinates only.\<close>

definition triangleR :: "TypeArray \<Rightarrow> TypeArray \<Rightarrow> nat \<Rightarrow> number" where
  "triangleR coordArray indicesArray i =
     (let index1 = elemAt indicesArray (i * 3 + 0);
          index2 = elemAt indicesArray (i * 3 + 1);
          index3 = elemAt indicesArray (i * 3 + 2);
          texcoord1 = createVector2 coordArray index1;
          texcoord2 = createVector2 coordArray index2;
          texcoord3 = createVector2 coordArray index3;
          uv1 = vec2_subtract texcoord2 texcoord1;
          uv2 = vec2_subtract texcoord3 texcoord1
      in js_div (Fin 1) (js_sub (js_mul (fst uv1) (snd uv2)) (js_mul (fst uv2) (snd uv1))))"

text \<open>One pass of the loop over the triangles; the state is the pair of accumulator
  lists \<open>tan1\<close>, \<open>tan2\<close>.\<close>

definition tangentStep ::
  "TypeArray \<Rightarrow> TypeArray \<Rightarrow> TypeArray \<Rightarrow> nat \<Rightarrow> vec3 list \<times> vec3 list
     \<Rightarrow> error + vec3 list \<times> vec3 list"
where
  "tangentStep positionArray coordArray indicesArray i tans =
     (let index1 = elemAt indicesArray (i * 3 + 0);
          index2 = elemAt indicesArray (i * 3 + 1);
          index3 = elemAt indicesArray (i * 3 + 2);
          vertex1 = createVector3 positionArray index1;
          vertex2 = createVector3 positionArray index2;
          vertex3 = createVector3 positionArray index3;
          texcoord1 = createVector2 coordArray index1;
          texcoord2 = createVector2 coordArray index2;
          texcoord3 = createVector2 coordArray index3;
          dir1 = vec3_subtract vertex2 vertex1;
          dir2 = vec3_subtract vertex3 vertex1;
          uv1 = vec2_subtract texcoord2 texcoord1;
          uv2 = vec2_subtract texcoord3 texcoord1;
          r = js_div (Fin 1) (js_sub (js_mul (fst uv1) (snd uv2)) (js_mul (fst uv2) (snd uv1)))
      in if \<not> isFinite r then Inr tans
         else
           (let sdir = vec3_scale dir1 (snd uv2);
                sdir = vec3_scaleAndAdd sdir dir2 (js_neg (snd uv1));
                sdir = vec3_scale sdir r;
                tdir = vec3_scale dir2 (fst uv1);
                tdir = vec3_scaleAndAdd tdir dir1 (js_neg (fst uv2));
                tdir = vec3_scale tdir r
            in case addInto3 (fst tans) index1 index2 index3 sdir of
                 Inl e \<Rightarrow> Inl e
               | Inr tan1 \<Rightarrow>
                   (case addInto3 (snd tans) index1 index2 index3 tdir of
                      Inl e \<Rightarrow> Inl e
                    | Inr tan2 \<Rightarrow> Inr (tan1, tan2))))"

text \<open>The loop over the triangles, on any list of triangle numbers; \<open>computeTangents\<close>
  runs it on \<open>0, 1, ...\<close> below \<open>indicesArray.length / 3\<close>.\<close>

definition accumulateTangents ::
  "TypeArray \<Rightarrow> TypeArray \<Rightarrow> TypeArray \<Rightarrow> nat list \<Rightarrow> vec3 list \<times> vec3 list
     \<Rightarrow> error + vec3 list \<times> vec3 list"
where
  "accumulateTangents positionArray coordArray indicesArray triangles tans =
     forEach (tangentStep positionArray coordArray indicesArray) triangles tans"

text \<open>The handedness test of vertex \<open>i\<close> (source lines 248 to 259), and the pass of the
  second loop that computes it and emits the tangent. \<open>tan1[i]\<close> and \<open>tan2[i]\<close> exist:
  \<open>i\<close> is below the length both lists were given.\<close>

definition handednessTest :: "TypeArray \<Rightarrow> vec3 list \<Rightarrow> vec3 list \<Rightarrow> nat \<Rightarrow> number" where
  "handednessTest normalArray tan1 tan2 i =
     (let normal = createVector3 normalArray (Some (Fin (real i)));
          normal = vec3_normalize normal;
          normal2 = normal;
          t = tan1 ! i;
          temp2 = vec3_cross normal2 t
      in vec3_dot temp2 (tan2 ! i))"

definition vertexTangent :: "TypeArray \<Rightarrow> vec3 list \<Rightarrow> vec3 list \<Rightarrow> nat \<Rightarrow> vec4" where
  "vertexTangent normalArray tan1 tan2 i =
     (let normal = createVector3 normalArray (Some (Fin (real i)));
          normal = vec3_normalize normal;
          normal2 = normal;
          t = tan1 ! i;
          temp = t;
          normal = vec3_scale normal (vec3_dot normal t);
          temp = vec3_subtract temp normal;
          temp = vec3_normalize temp;
          temp2 = vec3_cross normal2 t;
          test = vec3_dot temp2 (tan2 ! i);
          w = (if js_lt test (Fin 0) then Fin 1 else Fin 1)
      in vec4_fromValues (fst temp) (fst (snd temp)) (snd (snd temp)) w)"

definition computeTangents :: "PrimitiveData \<Rightarrow> TypeArray \<Rightarrow> error + vec4 list" where
  "computeTangents primitiveData normalArray =
     (case findAttribute (attributeDatas primitiveData) ATTR_POSITION of
        None \<Rightarrow> Inl TypeError
      | Some p \<Rightarrow>
          (let positionArray = data p;
               vertexCount = passes3 (length positionArray);
               tan1 = replicate vertexCount vec3_create;
               tan2 = replicate vertexCount vec3_create
           in case findAttribute (attributeDatas primitiveData) ATTR_TEX_COORD of
                None \<Rightarrow> Inl TypeError
              | Some c \<Rightarrow>
                  (case indices primitiveData of
                     None \<Rightarrow> Inl TypeError
                   | Some indicesArray \<Rightarrow>
                       (case accumulateTangents positionArray (data c) indicesArray
                               [0..<passes3 (length indicesArray)] (tan1, tan2) of
                          Inl e \<Rightarrow> Inl e
                        | Inr tans \<Rightarrow>
                            Inr (map (vertexTangent normalArray (fst tans) (snd tans))
                                   [0..<vertexCount])))))"

section \<open>Geometry.createNormalTypeArray, Geometry.createTangentAccessor\<close>

text \<open>Both fill a fresh, zeroed \<open>Float32Array\<close> of \<open>list.length * componentCount\<close>
  elements, one vector per pass.\<close>

definition fillNormals :: "vec3 list \<Rightarrow> TypeArray" where
  "fillNormals normalList =
     fold (\<lambda>i typeArray.
             (let normal = normalList ! i
              in typeArray[i * 3 + 0 := toFloat32 (fst normal),
                           i * 3 + 1 := toFloat32 (fst (snd normal)),
                           i * 3 + 2 := toFloat32 (snd (snd normal))]))
       [0..<length normalList] (replicate (length normalList * 3) (Fin 0))"

definition fillTangents :: "vec4 list \<Rightarrow> TypeArray" where
  "fillTangents tangentList =
     fold (\<lambda>i typeArray.
             (let tangent = tangentList ! i
              in typeArray[i * 4 + 0 := toFloat32 (fst tangent),
                           i * 4 + 1 := toFloat32 (fst (snd tangent)),
                           i * 4 + 2 := toFloat32 (fst (snd (snd tangent))),
                           i * 4 + 3 := toFloat32 (snd (snd (snd tangent)))]))
       [0..<length tangentList] (replicate (length tangentList * 4) (Fin 0))"

definition createNormalTypeArray :: "Geometry \<Rightarrow> nat \<Rightarrow> error + TypeArray" where
  "createNormalTypeArray g indexPrimitive =
     (case elemAt (primitiveDatas g) indexPrimitive of
        None \<Rightarrow> Inl TypeError
      | Some primitiveData \<Rightarrow>
          (case computeNormals primitiveData of
             Inl e \<Rightarrow> Inl e
           | Inr normalList \<Rightarrow> Inr (fillNormals normalList)))"

definition createTangentAccessor :: "Geometry \<Rightarrow> nat \<Rightarrow> TypeArray \<Rightarrow> error + TypeArray" where
  "createTangentAccessor g indexPrimitive normalArray =
     (case elemAt (primitiveDatas g) indexPrimitive of
        None \<Rightarrow> Inl TypeError
      | Some primitiveData \<Rightarrow>
          (case computeTangents primitiveData normalArray of
             Inl e \<Rightarrow> Inl e
           | Inr tangentList \<Rightarrow> Inr (fillTangents tangentList)))"

section \<open>Geometry.getAttributeAccessor\<close>

text \<open>
  The object is mutated in place; the model returns the geometry after the call. A call
  that throws has changed nothing before it throws, so an error carries no geometry.
  The third component of a result lists the synthesis passes the call ran (its calls of
  \<open>createNormalTypeArray\<close> and \<open>createTangentAccessor\<close>, with the primitive index), so
  that how often an attribute is computed can be stated.

  On source line 84 the \<open>data\<close> of the Normal entry is read from the result of \<open>find\<close>:
  when there is no Normal entry, \<open>find\<close> yields \<open>undefined\<close> and the read throws a
  \<open>TypeError\<close>. When there is one, its \<open>data\<close> is a \<open>TypeArray\<close> by the declared type, the
  test \<open>typeArray == null\<close> of line 85 is false, and the recursive call of line 86 is not
  made; the model has no branch for it.
\<close>

datatype computation = NormalGenerator nat | TangentGenerator nat

definition pushAttribute :: "Geometry \<Rightarrow> nat \<Rightarrow> AttributeData \<Rightarrow> Geometry" where
  "pushAttribute g indexPrimitive attributeData =
     g\<lparr>primitiveDatas :=
         (primitiveDatas g)[indexPrimitive :=
            (let p = primitiveDatas g ! indexPrimitive
             in p\<lparr>attributeDatas := attributeDatas p @ [attributeData]\<rparr>)]\<rparr>"

definition getAttributeAccessor ::
  "Geometry \<Rightarrow> nat \<Rightarrow> AttributeName \<Rightarrow> error + TypeArray \<times> Geometry \<times> computation list"
where
  "getAttributeAccessor g indexPrimitive attributeName =
     (case elemAt (primitiveDatas g) indexPrimitive of
        None \<Rightarrow> Inl TypeError
      | Some primitiveData \<Rightarrow>
          (case findAttribute (attributeDatas primitiveData) attributeName of
             Some attributeData \<Rightarrow> Inr (data attributeData, g, [])
           | None \<Rightarrow>
               (case attributeName of
                  ATTR_NORMAL \<Rightarrow>
                    (case createNormalTypeArray g indexPrimitive of
                       Inl e \<Rightarrow> Inl e
                     | Inr d \<Rightarrow>
                         Inr (d, pushAttribute g indexPrimitive \<lparr>name = Tag attributeName, data = d\<rparr>,
                              [NormalGenerator indexPrimitive]))
                | ATTR_TANGENT \<Rightarrow>
                    (case findAttribute (attributeDatas primitiveData) ATTR_NORMAL of
                       None \<Rightarrow> Inl TypeError
                     | Some normalData \<Rightarrow>
                         (let typeArray = data normalData
                          in case createTangentAccessor g indexPrimitive typeArray of
                               Inl e \<Rightarrow> Inl e
                             | Inr d \<Rightarrow>
                                 Inr (d,
                                      pushAttribute g indexPrimitive
                                        \<lparr>name = Tag attributeName, data = d\<rparr>,
                                      [TangentGenerator indexPrimitive])))
                | _ \<Rightarrow> Inl (NotSupported attributeName))))"

section \<open>Geometry.getBoundPositions\<close>

definition boundStep :: "PrimitiveData \<Rightarrow> vec3 \<times> vec3 \<Rightarrow> error + vec3 \<times> vec3" where
  "boundStep primitive bounds =
     (case boundingBox primitive of
        Some box \<Rightarrow> Inr (vec3_min (fst bounds) (bbMin box), vec3_max (snd bounds) (bbMax box))
      | None \<Rightarrow>
          (case findAttribute (attributeDatas primitive) ATTR_POSITION of
             None \<Rightarrow> Inl TypeError
           | Some p \<Rightarrow>
               (let typeArray = data p
                in Inr (fold (\<lambda>i b.
                                (let position = createVector3 typeArray (Some (Fin (real i)))
                                 in (vec3_min (fst b) position, vec3_max (snd b) position)))
                          (map (\<lambda>k. 3 * k) [0..<passes3 (length typeArray)]) bounds))))"

definition getBoundPositions :: "Geometry \<Rightarrow> error + vec3 \<times> vec3" where
  "getBoundPositions g =
     (let boundMin = (PosInf, PosInf, PosInf);
          boundMax = (NegInf, NegInf, NegInf)
      in forEach boundStep (primitiveDatas g) (boundMin, boundMax))"

section \<open>Geometry.creatFromGLTF\<close>

text \<open>
  Modelled from the spec: the types \<open>GLTF\<close> and \<open>MeshPrimitive\<close> and the decoder
  \<open>glTFLoaderBasic.accessorToTypeArray\<close> are declared in \<open>./glTFLoader\<close>, which is not among
  the sources. An accessor is represented by the typed array the decoder yields for it (the
  loader "supplies raw per-primitive attribute arrays and indices"), the attributes of a
  primitive by the list of their keys and accessors in enumeration order.
\<close>

record GltfNode =
  nodeID :: number

record Skin =
  skinJoints :: "GltfNode list"

record MeshPrimitive =
  primitiveIndices :: "TypeArray option"
  attributes :: "(string \<times> TypeArray) list"
  primitiveBoundingBox :: "BoundingBox option"

record Mesh =
  primitives :: "MeshPrimitive list"

record GLTF =
  meshes :: "Mesh list"
  skins :: "Skin list option"

text \<open>
  The object \<open>gltfAttributeMaps\<close> has the nine keys of its literal and, like every object
  literal, inherits the members of \<open>Object.prototype\<close>, which a read by key finds as
  well: those of the language standard and of its annex for web browsers.
\<close>

definition objectPrototypeKeys :: "string list" where
  "objectPrototypeKeys =
     [''constructor'', ''hasOwnProperty'', ''isPrototypeOf'', ''propertyIsEnumerable'',
      ''toLocaleString'', ''toString'', ''valueOf'', ''__proto__'', ''__defineGetter__'',
      ''__defineSetter__'', ''__lookupGetter__'', ''__lookupSetter__'']"

definition gltfAttributeMaps :: "string \<Rightarrow> nameValue" where
  "gltfAttributeMaps key =
     (case map_of
             [(''POSITION'', ATTR_POSITION),
              (''NORMAL'', ATTR_NORMAL),
              (''TANGENT'', ATTR_TANGENT),
              (''TEXCOORD_0'', ATTR_TEX_COORD),
              (''TEXCOORD_1'', ATTR_TEX_COORD1),
              (''TEXCOORD_2'', ATTR_TEX_COORD2),
              (''COLOR_0'', ATTR_COLOR),
              (''JOINTS_0'', ATTR_JOINTS),
              (''WEIGHTS_0'', ATTR_WEIGHTS)] key of
        Some tag \<Rightarrow> Tag tag
      | None \<Rightarrow> (if key \<in> set objectPrototypeKeys then Inherited key else Undefined))"

definition creatFromGLTF :: "GLTF \<Rightarrow> error + Geometry" where
  "creatFromGLTF gltf =
     (if length (meshes gltf) > 1 then Inl MultipleMesh
      else
        (case meshes gltf of
           [] \<Rightarrow> Inl TypeError
         | mesh # _ \<Rightarrow>
             (let joints =
                    (case skins gltf of
                       None \<Rightarrow> None
                     | Some [] \<Rightarrow> None
                     | Some (skin # _) \<Rightarrow> Some (map nodeID (skinJoints skin)))
              in Inr \<lparr>primitiveDatas =
                        map (\<lambda>primitive.
                               \<lparr>indices = primitiveIndices primitive,
                                joints = joints,
                                attributeDatas =
                                  map (\<lambda>(key, accessor).
                                         \<lparr>name = gltfAttributeMaps key, data = accessor\<rparr>)
                                    (attributes primitive),
                                boundingBox = primitiveBoundingBox primitive\<rparr>)
                          (primitives mesh)\<rparr>)))"

section \<open>CocosMeshMeta: the parsed metadata document\<close>

text \<open>
  \<open>JSON.parse\<close> yields a tree of fresh objects, no two of which are shared, so an
  assignment through a reference into the tree is the replacement of one subtree. A
  property key is an array index or another name (\<open>x[5]\<close> and \<open>x["5"]\<close> are the same
  property). Reads and writes are those of strict-mode code on own data properties: the
  elements of an array, the members of an object, the characters of a string; \<open>length\<close>
  and inherited properties are not modelled. A hole of an array reads as \<open>undefined\<close>.
\<close>

datatype key = Index nat | Name string






definition bindE :: "error + 'a \<Rightarrow> ('a \<Rightarrow> error + 'b) \<Rightarrow> error + 'b" where
  "bindE m f = (case m of Inl e \<Rightarrow> Inl e | Inr a \<Rightarrow> f a)"








section \<open>CocosMesh: the decoder of interleaved vertex bundles\<close>

text \<open>
  Modelled from the spec: the interfaces \<open>Attribute\<close>, \<open>IVertexBundle\<close> and \<open>ISubMesh\<close>, the
  table \<open>FormatInfos\<close> and the helpers \<open>getOffset\<close>, \<open>getReader\<close>,
  \<open>getTypedArrayConstructor\<close> and \<open>getIndexStrideCtor\<close> are declared in \<open>./Cocos\<close>, which is
  not among the sources. Offsets, strides and counts are natural numbers. What the helpers
  compute is a parameter of the decoder, the record \<open>Cocos\<close>:
  \<^item> \<open>formatCount f\<close> is \<open>FormatInfos[f].count\<close>;
  \<^item> \<open>getOffset\<close> is the helper of that name;
  \<^item> \<open>hasReader f\<close> tells whether \<open>getReader\<close> yields a reader for \<open>f\<close> rather than
    \<open>null\<close>;
  \<^item> \<open>decodeAt f buffer pos\<close> is the scalar of numeric format \<open>f\<close> decoded at byte position
    \<open>pos\<close> of the buffer, as the typed array of format \<open>f\<close> holds it, or the
    \<open>RangeError\<close> of a read outside the buffer; the reader of a \<open>DataView\<close> that starts at
    byte \<open>start\<close> reads offset \<open>o\<close> at position \<open>start + o\<close>;
  \<^item> \<open>bytesPerElement f\<close> is \<open>BYTES_PER_ELEMENT\<close> of the typed array constructor
    \<open>getTypedArrayConstructor\<close> chooses for \<open>f\<close>;
  \<^item> \<open>newIndexArray stride buffer offset count\<close> is the array that the constructor chosen
    by \<open>getIndexStrideCtor stride\<close> builds over the buffer, or the error it throws.
\<close>

type_synonym byte = "8 word"

record 'f Attribute =
  attributeName :: string
  format :: 'f

record IBufferView =
  offset :: nat
  count :: nat
  stride :: nat

record 'f IVertexBundle =
  view :: IBufferView
  attributes' :: "'f Attribute list"

record ISubMesh =
  indexView :: "IBufferView option"

record 'f Cocos =
  formatCount :: "'f \<Rightarrow> nat"
  getOffset :: "'f Attribute list \<Rightarrow> nat \<Rightarrow> nat"
  hasReader :: "'f \<Rightarrow> bool"
  decodeAt :: "'f \<Rightarrow> byte list \<Rightarrow> nat \<Rightarrow> error + number"
  bytesPerElement :: "'f \<Rightarrow> nat"
  newIndexArray :: "nat \<Rightarrow> byte list \<Rightarrow> nat \<Rightarrow> nat \<Rightarrow> error + TypeArray"

record 'f AttributeValue =
  attribute :: "'f Attribute"
  data' :: TypeArray

record 'f VertexBundle =
  attributeValues :: "'f AttributeValue list"

record 'f CocosMesh =
  bundles :: "'f VertexBundle list"
  meshPrimitives :: "TypeArray list"

text \<open>\<open>getReader(view, format)\<close> for the \<open>DataView\<close> of the buffer that starts at byte
  \<open>start\<close>.\<close>

definition getReader ::
  "'f Cocos \<Rightarrow> byte list \<Rightarrow> nat \<Rightarrow> 'f \<Rightarrow> (nat \<Rightarrow> error + number) option"
where
  "getReader C arrayBuffer start f =
     (if hasReader C f then Some (\<lambda>off. decodeAt C f arrayBuffer (start + off)) else None)"

text \<open>The assignment \<open>storage[...] = reader(...)\<close> of the innermost loop: calling a
  \<open>null\<close> reader throws a \<open>TypeError\<close>; a write outside a typed array is ignored.\<close>

definition storeComponent ::
  "(nat \<Rightarrow> error + number) option \<Rightarrow> nat \<Rightarrow> nat \<Rightarrow> nat \<Rightarrow> nat \<Rightarrow> nat \<Rightarrow> TypeArray
     \<Rightarrow> error + TypeArray"
where
  "storeComponent reader inputStride bytes componentCount iVertex iComponent storage =
     (case reader of
        None \<Rightarrow> Inl TypeError
      | Some read \<Rightarrow>
          (case read (inputStride * iVertex + bytes * iComponent) of
             Inl e \<Rightarrow> Inl e
           | Inr x \<Rightarrow> Inr (storage[componentCount * iVertex + iComponent := x])))"

definition decodeAttribute ::
  "'f Cocos \<Rightarrow> byte list \<Rightarrow> 'f IVertexBundle \<Rightarrow> nat \<Rightarrow> error + 'f AttributeValue"
where
  "decodeAttribute C arrayBuffer vertexBundle ia =
     (let start = offset (view vertexBundle) + getOffset C (attributes' vertexBundle) ia
      in if length arrayBuffer < start then Inl RangeError
         else
           (let fmt = format (attributes' vertexBundle ! ia);
                reader = getReader C arrayBuffer start fmt;
                vertexCount = count (view vertexBundle);
                inputStride = stride (view vertexBundle);
                componentCount = formatCount C fmt;
                storage = replicate (vertexCount * componentCount) (Fin 0)
            in case forEach
                      (\<lambda>iVertex.
                         forEach
                           (storeComponent reader inputStride (bytesPerElement C fmt)
                              componentCount iVertex)
                           [0..<componentCount])
                      [0..<vertexCount] storage of
                 Inl e \<Rightarrow> Inl e
               | Inr storage \<Rightarrow>
                   Inr \<lparr>attribute = attributes' vertexBundle ! ia, data' = storage\<rparr>))"

text \<open>A loop that appends one result per element and stops at the first error.\<close>

fun mapE :: "('a \<Rightarrow> error + 'b) \<Rightarrow> 'a list \<Rightarrow> error + 'b list" where
  "mapE f [] = Inr []"
| "mapE f (x # xs) =
     (case f x of
        Inl e \<Rightarrow> Inl e
      | Inr y \<Rightarrow> (case mapE f xs of Inl e \<Rightarrow> Inl e | Inr ys \<Rightarrow> Inr (y # ys)))"

definition decodeBundle :: "'f Cocos \<Rightarrow> byte list \<Rightarrow> 'f IVertexBundle \<Rightarrow> error + 'f VertexBundle" where
  "decodeBundle C arrayBuffer vertexBundle =
     (case mapE (decodeAttribute C arrayBuffer vertexBundle)
             [0..<length (attributes' vertexBundle)] of
        Inl e \<Rightarrow> Inl e
      | Inr avs \<Rightarrow> Inr \<lparr>attributeValues = avs\<rparr>)"

definition decodeIndices :: "'f Cocos \<Rightarrow> byte list \<Rightarrow> ISubMesh \<Rightarrow> error + TypeArray" where
  "decodeIndices C arrayBuffer primitive =
     (case indexView primitive of
        None \<Rightarrow> Inl TypeError
      | Some iv \<Rightarrow> newIndexArray C (stride iv) arrayBuffer (offset iv) (count iv))"

text \<open>The constructor of \<open>CocosMesh\<close>, from the buffer and the two lists of the metadata
  it reads (\<open>meshMeta.vertexBundles\<close>, \<open>meshMeta.primitives\<close>).\<close>

definition CocosMesh_constructor ::
  "'f Cocos \<Rightarrow> byte list \<Rightarrow> 'f IVertexBundle list \<Rightarrow> ISubMesh list \<Rightarrow> error + 'f CocosMesh"
where
  "CocosMesh_constructor C arrayBuffer vertexBundles metaPrimitives =
     (case mapE (decodeBundle C arrayBuffer) vertexBundles of
        Inl e \<Rightarrow> Inl e
      | Inr bs \<Rightarrow>
          (case mapE (decodeIndices C arrayBuffer) metaPrimitives of
             Inl e \<Rightarrow> Inl e
           | Inr ps \<Rightarrow> Inr \<lparr>bundles = bs, meshPrimitives = ps\<rparr>))"

text \<open>What the reader yields for component \<open>c\<close> of vertex \<open>v\<close>: the right-hand side of
  the assignment in \<open>storeComponent\<close>.\<close>

definition readComponent ::
  "(nat \<Rightarrow> error + number) option \<Rightarrow> nat \<Rightarrow> nat \<Rightarrow> nat \<Rightarrow> nat \<Rightarrow> error + number"
where
  "readComponent reader inputStride bytes v c =
     (case reader of None \<Rightarrow> Inl TypeError | Some read \<Rightarrow> read (inputStride * v + bytes * c))"

text \<open>The keys of the table \<open>gltfAttributeMaps\<close>.\<close>

definition recognizedKeys :: "string list" where
  "recognizedKeys =
     [''POSITION'', ''NORMAL'', ''TANGENT'', ''TEXCOORD_0'', ''TEXCOORD_1'', ''TEXCOORD_2'',
      ''COLOR_0'', ''JOINTS_0'', ''WEIGHTS_0'']"

section \<open>Example inputs\<close>

text \<open>The triangle \<open>(0,0,0), (1,0,0), (0,1,0)\<close> with indices \<open>0, 1, 2\<close>, alone and as the
  only primitive of a geometry; the same triangle with normals \<open>(0,0,1)\<close> and texture
  coordinates whose orientation is the mirror image of the positions'; texture
  coordinates that are all equal; texture coordinates of binary32 whose differences are
  not values of binary32, one set with parallel exact edges and one with parallel stored
  edges.\<close>

abbreviation unitPositions :: TypeArray where
  "unitPositions \<equiv> [Fin 0, Fin 0, Fin 0, Fin 1, Fin 0, Fin 0, Fin 0, Fin 1, Fin 0]"

abbreviation upNormals :: TypeArray where
  "upNormals \<equiv> [Fin 0, Fin 0, Fin 1, Fin 0, Fin 0, Fin 1, Fin 0, Fin 0, Fin 1]"

abbreviation mirroredUVs :: TypeArray where
  "mirroredUVs \<equiv> [Fin 0, Fin 0, Fin 1, Fin 0, Fin 0, Fin (- 1)]"

abbreviation collapsedUVs :: TypeArray where
  "collapsedUVs \<equiv> [Fin 0, Fin 0, Fin 0, Fin 0, Fin 0, Fin 0]"

abbreviation wideUVs :: TypeArray where
  "wideUVs \<equiv> [Fin 16777215, Fin 0, Fin (- 2), Fin 1, Fin (- 33554436), Fin 3]"

abbreviation nearUVs :: TypeArray where
  "nearUVs \<equiv> [Fin (- (1 / 1073741824)), Fin 0, Fin 1, Fin 1, Fin 2, Fin 2]"

abbreviation zeros3 :: "vec3 list" where
  "zeros3 \<equiv> [(Fin 0, Fin 0, Fin 0), (Fin 0, Fin 0, Fin 0), (Fin 0, Fin 0, Fin 0)]"

abbreviation mirroredTan1 :: "vec3 list" where
  "mirroredTan1 \<equiv> [(Fin 1, Fin 0, Fin 0), (Fin 1, Fin 0, Fin 0), (Fin 1, Fin 0, Fin 0)]"

abbreviation mirroredTan2 :: "vec3 list" where
  "mirroredTan2 \<equiv> [(Fin 0, Fin (- 1), Fin 0), (Fin 0, Fin (- 1), Fin 0), (Fin 0, Fin (- 1), Fin 0)]"

abbreviation mirroredTangentArray :: TypeArray where
  "mirroredTangentArray \<equiv>
     [Fin 1, Fin 0, Fin 0, Fin 1, Fin 1, Fin 0, Fin 0, Fin 1, Fin 1, Fin 0, Fin 0, Fin 1]"

definition unitTriangle :: PrimitiveData where
  "unitTriangle =
     \<lparr>indices = Some [Fin 0, Fin 1, Fin 2], joints = None,
      attributeDatas = [\<lparr>name = Tag ATTR_POSITION, data = unitPositions\<rparr>],
      boundingBox = None\<rparr>"

definition unitGeometry :: Geometry where
  "unitGeometry = \<lparr>primitiveDatas = [unitTriangle]\<rparr>"

definition mirroredTriangle :: PrimitiveData where
  "mirroredTriangle =
     \<lparr>indices = Some [Fin 0, Fin 1, Fin 2], joints = None,
      attributeDatas =
        [\<lparr>name = Tag ATTR_POSITION, data = unitPositions\<rparr>,
         \<lparr>name = Tag ATTR_TEX_COORD, data = mirroredUVs\<rparr>,
         \<lparr>name = Tag ATTR_NORMAL, data = upNormals\<rparr>],
      boundingBox = None\<rparr>"

definition mirroredGeometry :: Geometry where
  "mirroredGeometry = \<lparr>primitiveDatas = [mirroredTriangle]\<rparr>"

text \<open>A geometry whose only primitive has positions and texture coordinates and neither
  normals nor tangents.\<close>

definition noNormalGeometry :: Geometry where
  "noNormalGeometry =
     \<lparr>primitiveDatas =
        [\<lparr>indices = Some [Fin 0, Fin 1, Fin 2], joints = None,
          attributeDatas =
            [\<lparr>name = Tag ATTR_POSITION, data = unitPositions\<rparr>,
             \<lparr>name = Tag ATTR_TEX_COORD, data = [Fin 0, Fin 0, Fin 1, Fin 0, Fin 0, Fin 1]\<rparr>],
          boundingBox = None\<rparr>]\<rparr>"

text \<open>A geometry of a primitive with the box \<open>[(-1,-1,-1), (1,1,1)]\<close> and a primitive with
  no box and the two vertices \<open>(0,0,0)\<close>, \<open>(2,2,2)\<close>; a source whose primitive has an
  attribute under a key that \<open>gltfAttributeMaps\<close> does not list.\<close>

definition twoBoxGeometry :: Geometry where
  "twoBoxGeometry =
     \<lparr>primitiveDatas =
        [\<lparr>indices = None, joints = None, attributeDatas = [],
          boundingBox =
            Some \<lparr>bbMin = (Fin (- 1), Fin (- 1), Fin (- 1)), bbMax = (Fin 1, Fin 1, Fin 1)\<rparr>\<rparr>,
         \<lparr>indices = None, joints = None,
          attributeDatas =
            [\<lparr>name = Tag ATTR_POSITION, data = [Fin 0, Fin 0, Fin 0, Fin 2, Fin 2, Fin 2]\<rparr>],
          boundingBox = None\<rparr>]\<rparr>"

abbreviation customKeyMesh :: Mesh where
  "customKeyMesh \<equiv>
     \<lparr>primitives =
        [\<lparr>primitiveIndices = None,
          attributes =
            [(''POSITION'', [Fin 0, Fin 0, Fin 0]),
             (''COLOR_1'', [Fin 1, Fin 1, Fin 1, Fin 1])],
          primitiveBoundingBox = None\<rparr>]\<rparr>"

definition customKeyGLTF :: GLTF where
  "customKeyGLTF = \<lparr>meshes = [customKeyMesh], skins = None\<rparr>"

abbreviation customKeyGeometry :: Geometry where
  "customKeyGeometry \<equiv>
     \<lparr>primitiveDatas =
        [\<lparr>indices = None, joints = None,
          attributeDatas =
            [\<lparr>name = Tag ATTR_POSITION, data = [Fin 0, Fin 0, Fin 0]\<rparr>,
             \<lparr>name = Undefined, data = [Fin 1, Fin 1, Fin 1, Fin 1]\<rparr>],
          boundingBox = None\<rparr>]\<rparr>"

text \<open>Component counts as the spec has them: 3 for Position and Normal, 4 for Tangent,
  2 for the texture coordinates; it gives no figure for the other tags, which have 4
  here.\<close>

definition exampleComponentCount :: "AttributeName \<Rightarrow> nat" where
  "exampleComponentCount tag =
     (if tag = ATTR_POSITION \<or> tag = ATTR_NORMAL then 3
      else if tag = ATTR_TEX_COORD \<or> tag = ATTR_TEX_COORD1 \<or> tag = ATTR_TEX_COORD2 then 2
      else 4)"



text \<open>A decoder instance for one-byte unsigned components, two per attribute, and a bundle
  of two vertices of stride 3 that starts at byte 1 of a seven-byte buffer.\<close>

definition uint8 :: "byte \<Rightarrow> number" where
  "uint8 b = Fin (real (unat b))"

definition byteCocos :: "unit Cocos" where
  "byteCocos =
     \<lparr>formatCount = (\<lambda>f. 2),
      getOffset = (\<lambda>attrs ia. 0),
      hasReader = (\<lambda>f. True),
      decodeAt = (\<lambda>f buffer pos.
                    case elemAt buffer pos of
                      None \<Rightarrow> Inl RangeError
                    | Some b \<Rightarrow> Inr (uint8 b)),
      bytesPerElement = (\<lambda>f. 1),
      newIndexArray = (\<lambda>stride buffer offset count. Inr [])\<rparr>"

definition sampleBundle :: "unit IVertexBundle" where
  "sampleBundle =
     \<lparr>view = \<lparr>offset = 1, count = 2, stride = 3\<rparr>,
      attributes' = [\<lparr>attributeName = ''a_texCoord'', format = ()\<rparr>]\<rparr>"

definition sampleBuffer :: "byte list" where
  "sampleBuffer = [0, 10, 11, 99, 20, 21, 99]"

abbreviation sampleDecoded :: TypeArray where
  "sampleDecoded \<equiv> [uint8 10, uint8 11, uint8 20, uint8 21]"

section \<open>Rounding leaves small integers as they are\<close>

lemma rne_of_int [simp]: "rne (of_int z) = z"
  by (simp add: rne_def Let_def)

lemma floor_log2_int:
  assumes "n \<noteq> 0" and "\<bar>n\<bar> < 2 ^ p"
  shows "0 \<le> \<lfloor>log 2 \<bar>real_of_int n\<bar>\<rfloor> \<and> \<lfloor>log 2 \<bar>real_of_int n\<bar>\<rfloor> < int p"
proof -
  from assms(1) have "1 \<le> \<bar>n\<bar>" by simp
  then have "real_of_int 1 \<le> real_of_int \<bar>n\<bar>" by (simp only: of_int_le_iff)
  then have one: "1 \<le> \<bar>real_of_int n\<bar>" by simp
  then have pos: "0 < \<bar>real_of_int n\<bar>" by linarith
  from one pos have "0 \<le> log 2 \<bar>real_of_int n\<bar>"
    by (simp add: zero_le_log_cancel_iff)
  then have lo: "0 \<le> \<lfloor>log 2 \<bar>real_of_int n\<bar>\<rfloor>" by simp
  from assms(2) have "real_of_int \<bar>n\<bar> < real_of_int (2 ^ p)" by (simp only: of_int_less_iff)
  then have "\<bar>real_of_int n\<bar> < 2 ^ p" by simp
  then have "\<bar>real_of_int n\<bar> < 2 powr real p"
    by (simp add: powr_realpow)
  with pos have "log 2 \<bar>real_of_int n\<bar> < real p"
    by (simp add: log_less_iff)
  then have "\<lfloor>log 2 \<bar>real_of_int n\<bar>\<rfloor> < int p"
    by (simp add: floor_less_iff)
  with lo show ?thesis by simp
qed

text \<open>An integer below \<open>2 ^ p\<close> in magnitude is a value of the format.\<close>

lemma roundBinary_of_int:
  assumes "\<bar>n\<bar> < 2 ^ p" and "emin \<le> 0" and "int p \<le> emax + 1"
  shows "roundBinary p emin emax (of_int n) = Fin (of_int n)"
proof (cases "n = 0")
  case True
  then show ?thesis by (simp add: roundBinary_def)
next
  case False
  define e where "e = \<lfloor>log 2 \<bar>real_of_int n\<bar>\<rfloor>"
  from floor_log2_int [OF False assms(1)] have e: "0 \<le> e" "e < int p"
    by (simp_all add: e_def)
  with assms(2) have m: "max emin e = e" by simp
  define d where "d = nat (int p - 1 - e)"
  from e have k: "e - int p + 1 = - int d" by (simp add: d_def)
  have q: "pow2 (e - int p + 1) = 1 / 2 ^ d"
    unfolding k by (cases "d = 0") (simp_all add: pow2_def)
  have "real_of_int n / pow2 (e - int p + 1) = of_int (n * 2 ^ d)"
    by (simp add: q)
  then have r: "rne (real_of_int n / pow2 (e - int p + 1)) = n * 2 ^ d"
    by (simp only: rne_of_int)
  have y: "of_int (n * 2 ^ d) * pow2 (e - int p + 1) = real_of_int n"
    by (simp add: q)
  from assms(1) have "real_of_int \<bar>n\<bar> < real_of_int (2 ^ p)" by (simp only: of_int_less_iff)
  then have "\<bar>real_of_int n\<bar> < 2 ^ p" by simp
  also from assms(3) have "(2::real) ^ p \<le> 2 ^ nat (emax + 1)"
    by (intro power_increasing) auto
  finally have noov: "\<not> pow2 (emax + 1) \<le> \<bar>real_of_int n\<bar>"
    using assms(3) by (simp add: pow2_def)
  from False have nz: "real_of_int n \<noteq> 0" by simp
  have "roundBinary p emin emax (of_int n) =
      (if pow2 (emax + 1)
            \<le> \<bar>of_int (rne (real_of_int n / pow2 (e - int p + 1))) * pow2 (e - int p + 1)\<bar>
       then signedInf (of_int n)
       else Fin (of_int (rne (real_of_int n / pow2 (e - int p + 1))) * pow2 (e - int p + 1)))"
    by (simp only: roundBinary_def Let_def e_def [symmetric] m nz if_False)
  also have "\<dots> = Fin (of_int n)"
    by (simp only: r y noov if_False)
  finally show ?thesis .
qed

lemma fround_of_int: "\<bar>n\<bar> < 2 ^ 24 \<Longrightarrow> fround (of_int n) = Fin (of_int n)"
  unfolding fround_def by (rule roundBinary_of_int) simp_all

lemma dround_of_int: "\<bar>n\<bar> < 2 ^ 53 \<Longrightarrow> dround (of_int n) = Fin (of_int n)"
  unfolding dround_def by (rule roundBinary_of_int) simp_all

lemma fround_small [simp]:
  "fround 0 = Fin 0" "fround 1 = Fin 1" "fround (- 1) = Fin (- 1)"
  "numeral k < (16777216 :: int) \<Longrightarrow> fround (numeral k) = Fin (numeral k)"
  "numeral k < (16777216 :: int) \<Longrightarrow> fround (- numeral k) = Fin (- numeral k)"
  using fround_of_int [of 0] fround_of_int [of 1] fround_of_int [of "- 1"]
    fround_of_int [of "numeral k"] fround_of_int [of "- numeral k"]
  by simp_all

lemma dround_small [simp]:
  "dround 0 = Fin 0" "dround 1 = Fin 1" "dround (- 1) = Fin (- 1)"
  "numeral k < (9007199254740992 :: int) \<Longrightarrow> dround (numeral k) = Fin (numeral k)"
  "numeral k < (9007199254740992 :: int) \<Longrightarrow> dround (- numeral k) = Fin (- numeral k)"
  using dround_of_int [of 0] dround_of_int [of 1] dround_of_int [of "- 1"]
    dround_of_int [of "numeral k"] dround_of_int [of "- numeral k"]
  by simp_all

text \<open>A number whose leading bit has exponent \<open>e\<close> is rounded on the grid of that
  exponent.\<close>

lemma pow2_pos: "0 < pow2 k"
  by (simp add: pow2_def)

lemma pow2_powr: "pow2 k = 2 powr real_of_int k"
  by (simp add: pow2_def powr_real_of_int inverse_eq_divide)

lemma roundBinary_at_exponent:
  assumes "pow2 e \<le> \<bar>x\<bar>" and "\<bar>x\<bar> < pow2 (e + 1)" and "emin \<le> e"
  shows "roundBinary p emin emax x =
     (let q = pow2 (e - int p + 1); y = of_int (rne (x / q)) * q
      in if pow2 (emax + 1) \<le> \<bar>y\<bar> then signedInf x else Fin y)"
proof -
  from assms(1) pow2_pos [of e] have pos: "0 < \<bar>x\<bar>" by linarith
  then have nz: "x \<noteq> 0" by simp
  from assms(1,2) pos have "\<lfloor>log 2 \<bar>x\<bar>\<rfloor> = e"
    by (simp add: floor_log_eq_powr_iff pow2_powr)
  with assms(3) have "max emin \<lfloor>log 2 \<bar>x\<bar>\<rfloor> = e" by simp
  with nz show ?thesis by (simp add: roundBinary_def)
qed

lemma fround_beyond_24_bits:
  "fround (- 16777217) = Fin (- 16777216)"
  "fround (- 33554436) = Fin (- 33554436)"
  "fround (- 50331651) = Fin (- 50331652)"
proof -
  show "fround (- 16777217) = Fin (- 16777216)"
    unfolding fround_def
    by (subst roundBinary_at_exponent [where e = 24]) (simp_all add: pow2_def rne_def Let_def)
  show "fround (- 33554436) = Fin (- 33554436)"
    unfolding fround_def
    by (subst roundBinary_at_exponent [where e = 25]) (simp_all add: pow2_def rne_def Let_def)
  show "fround (- 50331651) = Fin (- 50331652)"
    unfolding fround_def
    by (subst roundBinary_at_exponent [where e = 25]) (simp_all add: pow2_def rne_def Let_def)
qed

lemma fround_below_24_bits:
  "fround (- (1 / 1073741824)) = Fin (- (1 / 1073741824))"
  "fround (1073741825 / 1073741824) = Fin 1"
  "fround (2147483649 / 1073741824) = Fin 2"
proof -
  show "fround (- (1 / 1073741824)) = Fin (- (1 / 1073741824))"
    unfolding fround_def
    by (subst roundBinary_at_exponent [where e = "- 30"]) (simp_all add: pow2_def rne_def Let_def)
  show "fround (1073741825 / 1073741824) = Fin 1"
    unfolding fround_def
    by (subst roundBinary_at_exponent [where e = 0]) (simp_all add: pow2_def rne_def Let_def)
  show "fround (2147483649 / 1073741824) = Fin 2"
    unfolding fround_def
    by (subst roundBinary_at_exponent [where e = 1]) (simp_all add: pow2_def rne_def Let_def)
qed

lemma dround_31_bits:
  "dround (1073741825 / 1073741824) = Fin (1073741825 / 1073741824)"
  "dround (2147483649 / 1073741824) = Fin (2147483649 / 1073741824)"
proof -
  show "dround (1073741825 / 1073741824) = Fin (1073741825 / 1073741824)"
    unfolding dround_def
    by (subst roundBinary_at_exponent [where e = 0]) (simp_all add: pow2_def rne_def Let_def)
  show "dround (2147483649 / 1073741824) = Fin (2147483649 / 1073741824)"
    unfolding dround_def
    by (subst roundBinary_at_exponent [where e = 1]) (simp_all add: pow2_def rne_def Let_def)
qed

lemma dround_quarter: "dround (1 / 4) = Fin (1 / 4)"
  unfolding dround_def
  by (subst roundBinary_at_exponent [where e = "- 2"]) (simp_all add: pow2_def rne_def Let_def)

section \<open>Evaluation of reads and loop bounds\<close>

lemma elemAt_Nil [simp]: "elemAt [] i = None"
  by (simp add: elemAt_def)

lemma elemAt_Cons_0 [simp]: "elemAt (x # xs) 0 = Some x"
  by (simp add: elemAt_def)

lemma elemAt_Cons_Suc [simp]: "elemAt (x # xs) (Suc i) = elemAt xs i"
  by (simp add: elemAt_def)

lemma elemAt_Some: "elemAt xs i = Some x \<Longrightarrow> i < length xs \<and> xs ! i = x"
  by (auto simp: elemAt_def split: if_splits)

lemma passes3_simps [simp]:
  "passes3 0 = 0" "passes3 (Suc 0) = Suc 0" "passes3 (Suc (Suc 0)) = Suc 0"
  "passes3 (Suc (Suc (Suc n))) = Suc (passes3 n)"
  by (simp_all add: passes3_def)

lemma passes3_dvd: "3 dvd n \<Longrightarrow> passes3 n = n div 3"
  by (auto simp: passes3_def)

lemma getElem_nat: "getElem xs (Fin (real n)) = elemAt xs n"
  by (simp add: getElem_def arrayIndex_def)

lemma getElem_0 [simp]: "getElem xs (Fin 0) = elemAt xs 0"
  using getElem_nat [of xs 0] by simp

lemma getElem_1 [simp]: "getElem xs (Fin 1) = elemAt xs (Suc 0)"
  using getElem_nat [of xs 1] by simp

lemma getElem_numeral [simp]: "getElem xs (Fin (numeral k)) = elemAt xs (numeral k)"
  using getElem_nat [of xs "numeral k"] by simp

lemma getElem_NaN [simp]: "getElem xs NaN = None"
  by (simp add: getElem_def arrayIndex_def)

declare vec3_normalize.simps [simp del]

lemmas vector_reads =
  createVector3_def createVector2_def ToNumber_def vec3_set_def vec2_set_def Let_def
  eval_nat_numeral

lemma normalize_axes:
  "vec3_normalize (Fin 0, Fin 0, Fin 1) = (Fin 0, Fin 0, Fin 1)"
  "vec3_normalize (Fin 1, Fin 0, Fin 0) = (Fin 1, Fin 0, Fin 0)"
  "vec3_normalize (Fin 0, Fin 0, Fin 0) = (Fin 0, Fin 0, Fin 0)"
  by (simp_all add: vec3_normalize.simps js_gt_def Let_def)

lemma unit_positions:
  "createVector3 unitPositions (Some (Fin 0)) = (Fin 0, Fin 0, Fin 0)"
  "createVector3 unitPositions (Some (Fin 1)) = (Fin 1, Fin 0, Fin 0)"
  "createVector3 unitPositions (Some (Fin 2)) = (Fin 0, Fin 1, Fin 0)"
  by (simp_all add: vector_reads)

lemma up_normals:
  "createVector3 upNormals (Some (Fin 0)) = (Fin 0, Fin 0, Fin 1)"
  "createVector3 upNormals (Some (Fin 1)) = (Fin 0, Fin 0, Fin 1)"
  "createVector3 upNormals (Some (Fin 2)) = (Fin 0, Fin 0, Fin 1)"
  by (simp_all add: vector_reads)

lemma mirrored_uvs:
  "createVector2 mirroredUVs (Some (Fin 0)) = (Fin 0, Fin 0)"
  "createVector2 mirroredUVs (Some (Fin 1)) = (Fin 1, Fin 0)"
  "createVector2 mirroredUVs (Some (Fin 2)) = (Fin 0, Fin (- 1))"
  by (simp_all add: vector_reads)

lemma collapsed_uvs:
  "createVector2 collapsedUVs (Some (Fin 0)) = (Fin 0, Fin 0)"
  "createVector2 collapsedUVs (Some (Fin 1)) = (Fin 0, Fin 0)"
  "createVector2 collapsedUVs (Some (Fin 2)) = (Fin 0, Fin 0)"
  by (simp_all add: vector_reads)

lemma addInto3_012:
  "addInto3 [a, b, c] (Some (Fin 0)) (Some (Fin 1)) (Some (Fin 2)) d =
   Inr [vec3_add a d, vec3_add b d, vec3_add c d]"
  by (simp add: addInto3_def addInto_def ToNumber_def arrayIndex_def eval_nat_numeral)

section \<open>Loops\<close>

lemma forEach_append:
  "forEach f (xs @ ys) s = (case forEach f xs s of Inl e \<Rightarrow> Inl e | Inr s' \<Rightarrow> forEach f ys s')"
  by (induction xs arbitrary: s) (auto split: sum.splits)

lemma forEach_invariant:
  assumes "forEach f xs s = Inr s'" and "P s"
    and "\<And>x t t'. f x t = Inr t' \<Longrightarrow> P t \<Longrightarrow> P t'"
  shows "P s'"
  using assms(1,2)
proof (induction xs arbitrary: s)
  case Nil
  then show ?case by simp
next
  case (Cons x xs)
  then show ?case by (auto split: sum.splits intro: assms(3))
qed

lemma fold_length:
  assumes "\<And>x t. length (f x t) = length t"
  shows "length (fold f xs s) = length s"
  by (induction xs arbitrary: s) (simp_all add: assms)

lemma mapE_Inr:
  assumes "mapE f xs = Inr ys"
  shows "length ys = length xs \<and> (\<forall>i<length xs. f (xs ! i) = Inr (ys ! i))"
  using assms
proof (induction xs arbitrary: ys)
  case Nil
  then show ?case by simp
next
  case (Cons x xs)
  then obtain y ys' where y: "f x = Inr y" "mapE f xs = Inr ys'" "ys = y # ys'"
    by (auto split: sum.splits)
  from Cons.IH [OF y(2)] y show ?case
    by (auto simp: nth_Cons')
qed

lemma find_snoc:
  "find P (xs @ [x]) =
     (case find P xs of None \<Rightarrow> (if P x then Some x else None) | Some y \<Rightarrow> Some y)"
  by (induction xs) auto

section \<open>The normal generator\<close>

lemma addInto_length: "addInto vs index d = Inr vs' \<Longrightarrow> length vs' = length vs"
  by (auto simp: addInto_def split: option.splits)

lemma addInto3_length: "addInto3 vs i1 i2 i3 d = Inr vs' \<Longrightarrow> length vs' = length vs"
  by (auto simp: addInto3_def split: sum.splits dest!: addInto_length)

lemma normalStep_length:
  "normalStep positionArray indicesArray i ns = Inr ns' \<Longrightarrow> length ns' = length ns"
  unfolding normalStep_def Let_def by (rule addInto3_length)

lemma computeNormals_length:
  assumes "computeNormals pd = Inr ns"
    and "findAttribute (attributeDatas pd) ATTR_POSITION = Some pos"
  shows "length ns = passes3 (length (data pos))"
proof -
  from assms obtain indicesArray ns0 where
    loop: "forEach (normalStep (data pos) indicesArray)
             (map (\<lambda>k. 3 * k) [0..<passes3 (length indicesArray)])
             (replicate (passes3 (length (data pos))) vec3_create) = Inr ns0"
    and ns: "ns = map vec3_normalize ns0"
    by (auto simp: computeNormals_def Let_def split: option.splits sum.splits)
  have "length ns0 = length (replicate (passes3 (length (data pos))) vec3_create)"
    by (rule forEach_invariant [OF loop,
          where P = "\<lambda>t. length t = length (replicate (passes3 (length (data pos))) vec3_create)"])
       (auto dest: normalStep_length)
  with ns show ?thesis by simp
qed

lemma unit_triangle_step:
  "normalStep unitPositions [Fin 0, Fin 1, Fin 2] 0 zeros3 =
   Inr [(Fin 0, Fin 0, Fin 1), (Fin 0, Fin 0, Fin 1), (Fin 0, Fin 0, Fin 1)]"
  unfolding normalStep_def Let_def
  by (simp add: unit_positions js_sub_def addInto3_012)

text \<open>
  C8. For the primitive whose positions are \<open>(0,0,0), (1,0,0), (0,1,0)\<close> and whose index
  array is \<open>[0, 1, 2]\<close>, the normal generator \<open>computeNormals\<close> (which adds the cross
  product of the two edges of each triangle to the accumulators of its three vertices and
  then normalizes every accumulator) returns \<open>(0,0,1)\<close> for each of the three vertices.
\<close>

theorem C8_unit_triangle_normals:
  "computeNormals unitTriangle =
   Inr [(Fin 0, Fin 0, Fin 1), (Fin 0, Fin 0, Fin 1), (Fin 0, Fin 0, Fin 1)]"
proof -
  have "forEach (normalStep unitPositions [Fin 0, Fin 1, Fin 2])
          (map (\<lambda>k. 3 * k) [0..<passes3 (length [Fin 0, Fin 1, Fin 2 :: number])])
          (replicate (passes3 (length unitPositions)) vec3_create) =
        Inr [(Fin 0, Fin 0, Fin 1), (Fin 0, Fin 0, Fin 1), (Fin 0, Fin 0, Fin 1)]"
    by (simp add: vec3_create_def unit_triangle_step)
  then show ?thesis
    unfolding computeNormals_def unitTriangle_def
    by (simp add: findAttribute_def normalize_axes)
qed

section \<open>The tangent generator\<close>

lemma computeTangents_Inr:
  assumes "computeTangents pd na = Inr ts"
  shows "\<exists>pos t1 t2. findAttribute (attributeDatas pd) ATTR_POSITION = Some pos \<and>
           ts = map (vertexTangent na t1 t2) [0..<passes3 (length (data pos))]"
  using assms by (auto simp: computeTangents_def Let_def split: option.splits sum.splits)

lemma vertexTangent_w: "snd (snd (snd (vertexTangent na t1 t2 i))) = Fin 1"
  by (simp add: vertexTangent_def Let_def vec4_fromValues_def)

lemma mirrored_step:
  "tangentStep unitPositions mirroredUVs [Fin 0, Fin 1, Fin 2] 0 (zeros3, zeros3) =
   Inr (mirroredTan1, mirroredTan2)"
  unfolding tangentStep_def Let_def
  by (simp add: unit_positions mirrored_uvs js_sub_def addInto3_012)

lemma mirrored_test: "handednessTest upNormals mirroredTan1 mirroredTan2 0 = Fin (- 1)"
  unfolding handednessTest_def Let_def
  by (simp add: up_normals normalize_axes js_sub_def)

lemma mirrored_vertex:
  "vertexTangent upNormals mirroredTan1 mirroredTan2 0 = (Fin 1, Fin 0, Fin 0, Fin 1)"
  "vertexTangent upNormals mirroredTan1 mirroredTan2 (Suc 0) = (Fin 1, Fin 0, Fin 0, Fin 1)"
  "vertexTangent upNormals mirroredTan1 mirroredTan2 (Suc (Suc 0)) = (Fin 1, Fin 0, Fin 0, Fin 1)"
  unfolding vertexTangent_def Let_def
  by (simp_all add: up_normals normalize_axes js_sub_def vec4_fromValues_def)

lemma mirrored_tangents:
  "computeTangents mirroredTriangle upNormals =
   Inr [(Fin 1, Fin 0, Fin 0, Fin 1), (Fin 1, Fin 0, Fin 0, Fin 1), (Fin 1, Fin 0, Fin 0, Fin 1)]"
  unfolding computeTangents_def mirroredTriangle_def
  by (simp add: findAttribute_def accumulateTangents_def vec3_create_def mirrored_step
      mirrored_vertex)

text \<open>
  C2. Whatever the primitive and the normal array, every tangent that \<open>computeTangents\<close>
  emits has the fourth (handedness) component \<open>+1\<close>: the handedness test value is computed
  and both outcomes of its comparison with zero give \<open>1\<close>.
\<close>

theorem C2_handedness_always_one:
  assumes "computeTangents primitiveData normalArray = Inr tangentList"
    and "i < length tangentList"
  shows "snd (snd (snd (tangentList ! i))) = Fin 1"
proof -
  from computeTangents_Inr [OF assms(1)] obtain pos :: AttributeData and t1 t2 where
    "tangentList = map (vertexTangent normalArray t1 t2) [0..<passes3 (length (data pos))]"
    by blast
  with assms(2) show ?thesis by (simp add: vertexTangent_w)
qed

text \<open>On the mirrored triangle the test value of vertex 0 is \<open>-1\<close>, and the handedness
  emitted is \<open>1\<close>.\<close>

theorem C2_mirrored_triangle:
  "js_lt (handednessTest upNormals mirroredTan1 mirroredTan2 0) (Fin 0) \<and>
   computeTangents mirroredTriangle upNormals =
     Inr [(Fin 1, Fin 0, Fin 0, Fin 1), (Fin 1, Fin 0, Fin 0, Fin 1), (Fin 1, Fin 0, Fin 0, Fin 1)] \<and>
   snd (snd (snd ([(Fin 1, Fin 0, Fin 0, Fin 1), (Fin 1, Fin 0, Fin 0, Fin 1),
                   (Fin 1, Fin 0, Fin 0, Fin 1)] ! 0))) = Fin 1"
  using C2_handedness_always_one [OF mirrored_tangents, of 0]
  by (simp add: mirrored_test mirrored_tangents)

text \<open>
  The edges \<open>uv1\<close> and \<open>uv2\<close> are held in binary32, and \<open>r\<close> is computed from the
  stored edges. For the texture coordinates \<open>(16777215, 0), (-2, 1), (-33554436, 3)\<close> the
  exact edges \<open>(-16777217, 1)\<close> and \<open>(-50331651, 3)\<close> have determinant zero; the stored
  edges are \<open>(-16777216, 1)\<close> and \<open>(-50331652, 3)\<close>, the determinant is 4 and \<open>r\<close> is
  \<open>1 / 4\<close>. For \<open>(-1 / 2 ^ 30, 0), (1, 1), (2, 2)\<close> the exact edges have the determinant
  \<open>1 / 2 ^ 30\<close>; the stored edges are \<open>(1, 1)\<close> and \<open>(2, 2)\<close>, the determinant is zero and
  \<open>r\<close> is infinite.
\<close>

lemma wide_uvs:
  "createVector2 wideUVs (Some (Fin 0)) = (Fin 16777215, Fin 0)"
  "createVector2 wideUVs (Some (Fin 1)) = (Fin (- 2), Fin 1)"
  "createVector2 wideUVs (Some (Fin 2)) = (Fin (- 33554436), Fin 3)"
  by (simp_all add: vector_reads fround_beyond_24_bits)

lemma wide_uv_triangle_r:
  "(- 16777217) * 3 - (- 50331651) * (1 :: real) = 0 \<and>
   triangleR wideUVs [Fin 0, Fin 1, Fin 2] 0 = Fin (1 / 4) \<and>
   isFinite (triangleR wideUVs [Fin 0, Fin 1, Fin 2] 0)"
proof -
  have "triangleR wideUVs [Fin 0, Fin 1, Fin 2] 0 = Fin (1 / 4)"
    unfolding triangleR_def Let_def
    by (simp add: wide_uvs js_sub_def fround_beyond_24_bits dround_quarter)
  then show ?thesis by simp
qed

lemma near_uvs:
  "createVector2 nearUVs (Some (Fin 0)) = (Fin (- (1 / 1073741824)), Fin 0)"
  "createVector2 nearUVs (Some (Fin 1)) = (Fin 1, Fin 1)"
  "createVector2 nearUVs (Some (Fin 2)) = (Fin 2, Fin 2)"
  by (simp_all add: vector_reads fround_below_24_bits)

lemma near_uv_triangle_r:
  "(1 + 1 / 1073741824) * 2 - (2 + 1 / 1073741824) * (1 :: real) \<noteq> 0 \<and>
   triangleR nearUVs [Fin 0, Fin 1, Fin 2] 0 = PosInf"
proof -
  have "triangleR nearUVs [Fin 0, Fin 1, Fin 2] 0 = PosInf"
    unfolding triangleR_def Let_def
    by (simp add: near_uvs js_sub_def fround_below_24_bits dround_31_bits signedInf_def)
  then show ?thesis by simp
qed

lemma tangentStep_skip:
  assumes "\<not> isFinite (triangleR coordArray indicesArray i)"
  shows "tangentStep positionArray coordArray indicesArray i tans = Inr tans"
  using assms unfolding tangentStep_def triangleR_def Let_def by simp

text \<open>
  C4. A triangle whose value \<open>r = 1 / (uv1.x * uv2.y - uv2.x * uv1.y)\<close>, computed as the
  code computes it from the stored edges, is not finite is skipped: its pass leaves both
  accumulator lists as they are, and the loop over any list of triangles has the same
  outcome with and without that triangle.
\<close>

theorem C4_degenerate_triangle_skipped:
  assumes "\<not> isFinite (triangleR coordArray indicesArray i)"
  shows "tangentStep positionArray coordArray indicesArray i tans = Inr tans \<and>
         accumulateTangents positionArray coordArray indicesArray (before @ i # after) tans =
         accumulateTangents positionArray coordArray indicesArray (before @ after) tans"
  using tangentStep_skip [OF assms]
  by (simp add: accumulateTangents_def forEach_append split: sum.splits)

text \<open>The triangle whose three texture coordinates are equal, and the triangle whose
  stored edges are parallel, are skipped.\<close>

theorem C4_collapsed_uv_triangle:
  "\<not> isFinite (triangleR collapsedUVs [Fin 0, Fin 1, Fin 2] 0) \<and>
   tangentStep unitPositions collapsedUVs [Fin 0, Fin 1, Fin 2] 0 (zeros3, zeros3) =
     Inr (zeros3, zeros3) \<and>
   accumulateTangents unitPositions collapsedUVs [Fin 0, Fin 1, Fin 2] ([] @ 0 # [])
     (zeros3, zeros3) =
   accumulateTangents unitPositions collapsedUVs [Fin 0, Fin 1, Fin 2] ([] @ [])
     (zeros3, zeros3) \<and>
   \<not> isFinite (triangleR nearUVs [Fin 0, Fin 1, Fin 2] 0) \<and>
   tangentStep unitPositions nearUVs [Fin 0, Fin 1, Fin 2] 0 (zeros3, zeros3) =
     Inr (zeros3, zeros3)"
proof -
  have "triangleR collapsedUVs [Fin 0, Fin 1, Fin 2] 0 = PosInf"
    unfolding triangleR_def Let_def by (simp add: collapsed_uvs js_sub_def signedInf_def)
  then have h: "\<not> isFinite (triangleR collapsedUVs [Fin 0, Fin 1, Fin 2] 0)"
    by simp
  from near_uv_triangle_r have n: "\<not> isFinite (triangleR nearUVs [Fin 0, Fin 1, Fin 2] 0)"
    by simp
  from C4_degenerate_triangle_skipped [OF h, of unitPositions "(zeros3, zeros3)" "[]" "[]"]
    C4_degenerate_triangle_skipped [OF n, of unitPositions "(zeros3, zeros3)" "[]" "[]"] h n
  show ?thesis by simp
qed

section \<open>Attribute lookup and lazy synthesis\<close>

lemma fillNormals_length: "length (fillNormals ns) = length ns * 3"
  unfolding fillNormals_def by (subst fold_length) (simp_all add: Let_def)

lemma fillTangents_length: "length (fillTangents ts) = length ts * 4"
  unfolding fillTangents_def by (subst fold_length) (simp_all add: Let_def)

lemma fillNormals_up:
  "fillNormals [(Fin 0, Fin 0, Fin 1), (Fin 0, Fin 0, Fin 1), (Fin 0, Fin 0, Fin 1)] = upNormals"
  by (simp add: fillNormals_def Let_def eval_nat_numeral)

lemma fillTangents_mirrored:
  "fillTangents
     [(Fin 1, Fin 0, Fin 0, Fin 1), (Fin 1, Fin 0, Fin 0, Fin 1), (Fin 1, Fin 0, Fin 0, Fin 1)] =
   mirroredTangentArray"
  by (simp add: fillTangents_def Let_def eval_nat_numeral)

lemma pushAttribute_find:
  assumes "elemAt (primitiveDatas g) p = Some pd"
    and "findAttribute (attributeDatas pd) n = None"
  shows "\<exists>pd'. elemAt (primitiveDatas (pushAttribute g p \<lparr>name = Tag n, data = d\<rparr>)) p = Some pd' \<and>
           findAttribute (attributeDatas pd') n = Some \<lparr>name = Tag n, data = d\<rparr>"
  using assms
  by (auto simp: pushAttribute_def elemAt_def findAttribute_def find_snoc Let_def split: if_splits)

lemma tangent_needs_normal:
  assumes "elemAt (primitiveDatas g) p = Some pd"
    and "findAttribute (attributeDatas pd) ATTR_TANGENT = None"
    and "findAttribute (attributeDatas pd) ATTR_NORMAL = None"
  shows "getAttributeAccessor g p ATTR_TANGENT = Inl TypeError"
  using assms by (simp add: getAttributeAccessor_def)

lemma unitGeometry_normal:
  "getAttributeAccessor unitGeometry 0 ATTR_NORMAL =
   Inr (upNormals,
        pushAttribute unitGeometry 0 \<lparr>name = Tag ATTR_NORMAL, data = upNormals\<rparr>,
        [NormalGenerator 0])"
proof -
  have f: "findAttribute (attributeDatas unitTriangle) ATTR_NORMAL = None"
    by (simp add: unitTriangle_def findAttribute_def)
  have n: "computeNormals unitTriangle =
      Inr [(Fin 0, Fin 0, Fin 1), (Fin 0, Fin 0, Fin 1), (Fin 0, Fin 0, Fin 1)]"
    unfolding computeNormals_def unitTriangle_def
    by (simp add: findAttribute_def vec3_create_def unit_triangle_step normalize_axes)
  show ?thesis
    by (simp add: getAttributeAccessor_def unitGeometry_def f createNormalTypeArray_def n
        fillNormals_up)
qed

lemma mirroredGeometry_tangent:
  "getAttributeAccessor mirroredGeometry 0 ATTR_TANGENT =
   Inr (mirroredTangentArray,
        pushAttribute mirroredGeometry 0 \<lparr>name = Tag ATTR_TANGENT, data = mirroredTangentArray\<rparr>,
        [TangentGenerator 0])"
proof -
  have t: "findAttribute (attributeDatas mirroredTriangle) ATTR_TANGENT = None"
    by (simp add: mirroredTriangle_def findAttribute_def)
  have n: "findAttribute (attributeDatas mirroredTriangle) ATTR_NORMAL =
      Some \<lparr>name = Tag ATTR_NORMAL, data = upNormals\<rparr>"
    by (simp add: mirroredTriangle_def findAttribute_def)
  show ?thesis
    by (simp add: getAttributeAccessor_def mirroredGeometry_def t n createTangentAccessor_def
        mirrored_tangents fillTangents_mirrored)
qed

text \<open>
  C1. The claim is that a request for the Tangent attribute of a primitive that has
  none first makes sure the Normal attribute exists, synthesising it when it is absent,
  then generates, appends and returns the tangents. On a primitive that has neither
  attribute the code throws instead: the read of \<open>data\<close> on source line 84 comes before
  the test that guards the recursive call.
\<close>

theorem C1_tangent_without_normal_throws:
  "getAttributeAccessor noNormalGeometry 0 ATTR_TANGENT = Inl TypeError"
  by (simp add: getAttributeAccessor_def noNormalGeometry_def findAttribute_def)

lemma synthesised_length:
  assumes "getAttributeAccessor g p tag = Inr (arr, g', cs)"
    and "findAttribute (attributeDatas (primitiveDatas g ! p)) tag = None"
    and "findAttribute (attributeDatas (primitiveDatas g ! p)) ATTR_POSITION = Some pos"
  shows "(tag = ATTR_NORMAL \<or> tag = ATTR_TANGENT) \<and>
         length arr = passes3 (length (data pos)) * (if tag = ATTR_NORMAL then 3 else 4)"
proof -
  from assms(1) obtain pd where pd: "elemAt (primitiveDatas g) p = Some pd"
    by (auto simp: getAttributeAccessor_def split: option.splits)
  then have pd_eq: "primitiveDatas g ! p = pd" by (simp add: elemAt_Some)
  have tag: "tag = ATTR_NORMAL \<or> tag = ATTR_TANGENT"
    using assms(1,2) pd pd_eq
    by (auto simp: getAttributeAccessor_def split: AttributeName.splits)
  have "length arr = passes3 (length (data pos)) * (if tag = ATTR_NORMAL then 3 else 4)"
  proof (cases "tag = ATTR_NORMAL")
    case True
    with assms(1,2) pd pd_eq obtain ns where
      "computeNormals pd = Inr ns" "arr = fillNormals ns"
      by (auto simp: getAttributeAccessor_def createNormalTypeArray_def split: sum.splits)
    with assms(3) pd_eq True show ?thesis
      by (simp add: fillNormals_length computeNormals_length)
  next
    case False
    with tag have t: "tag = ATTR_TANGENT" by simp
    with assms(1,2) pd pd_eq obtain na ts where
      "computeTangents pd na = Inr ts" "arr = fillTangents ts"
      by (auto simp: getAttributeAccessor_def createTangentAccessor_def Let_def
          split: sum.splits option.splits)
    with assms(3) pd_eq t show ?thesis
      by (auto simp: fillTangents_length dest!: computeTangents_Inr)
  qed
  with tag show ?thesis by simp
qed

lemma present_returned:
  assumes "getAttributeAccessor g p tag = Inr (arr, g', cs)"
    and "findAttribute (attributeDatas (primitiveDatas g ! p)) tag = Some e"
  shows "arr = data e \<and> name e = Tag tag \<and> e \<in> set (attributeDatas (primitiveDatas g ! p))"
proof -
  from assms(1) obtain pd where pd: "elemAt (primitiveDatas g) p = Some pd"
    by (auto simp: getAttributeAccessor_def split: option.splits)
  then have pd_eq: "primitiveDatas g ! p = pd" by (simp add: elemAt_Some)
  from assms(2) have "name e = Tag tag \<and> e \<in> set (attributeDatas (primitiveDatas g ! p))"
    by (auto simp: findAttribute_def find_Some_iff)
  moreover from assms pd pd_eq have "arr = data e"
    by (simp add: getAttributeAccessor_def)
  ultimately show ?thesis by simp
qed

text \<open>
  C5. On a primitive that keeps the invariant of the data model (the Position length is
  a multiple of 3, and every stored attribute with a semantic tag has
  \<open>vertexCount * componentCount\<close> elements, \<open>vertexCount\<close> being the Position length
  divided by 3), the array that \<open>getAttributeAccessor\<close> returns for a tag, whether the
  attribute is present or synthesised, has \<open>vertexCount * componentCount\<close> elements,
  for every assignment of component counts that gives Normal 3 and Tangent 4.
\<close>

theorem C5_resolved_length:
  assumes "getAttributeAccessor g p tag = Inr (arr, g', cs)"
    and "findAttribute (attributeDatas (primitiveDatas g ! p)) ATTR_POSITION = Some pos"
    and "3 dvd length (data pos)"
    and "\<forall>e\<in>set (attributeDatas (primitiveDatas g ! p)). \<forall>t.
           name e = Tag t \<longrightarrow> length (data e) = length (data pos) div 3 * componentCount t"
    and "componentCount ATTR_NORMAL = 3" and "componentCount ATTR_TANGENT = 4"
  shows "length arr = length (data pos) div 3 * componentCount tag"
proof (cases "findAttribute (attributeDatas (primitiveDatas g ! p)) tag")
  case (Some e)
  from present_returned [OF assms(1) Some] assms(4) show ?thesis by blast
next
  case None
  from synthesised_length [OF assms(1) None assms(2)] assms(3,5,6) show ?thesis
    by (auto simp: passes3_dvd)
qed

text \<open>The tangents synthesised for the mirrored triangle, its normals, which are
  present, and the normals synthesised for the unit triangle.\<close>

theorem C5_triangle_lengths:
  "length mirroredTangentArray = length unitPositions div 3 * exampleComponentCount ATTR_TANGENT \<and>
   length upNormals = length unitPositions div 3 * exampleComponentCount ATTR_NORMAL"
proof -
  have pm: "findAttribute (attributeDatas (primitiveDatas mirroredGeometry ! 0)) ATTR_POSITION =
      Some \<lparr>name = Tag ATTR_POSITION, data = unitPositions\<rparr>"
    by (simp add: mirroredGeometry_def mirroredTriangle_def findAttribute_def)
  have im: "\<forall>e\<in>set (attributeDatas (primitiveDatas mirroredGeometry ! 0)). \<forall>t.
      name e = Tag t \<longrightarrow>
      length (data e) =
        length (data \<lparr>name = Tag ATTR_POSITION, data = unitPositions\<rparr>) div 3 *
        exampleComponentCount t"
    by (simp add: mirroredGeometry_def mirroredTriangle_def exampleComponentCount_def)
  have nm: "getAttributeAccessor mirroredGeometry 0 ATTR_NORMAL =
      Inr (upNormals, mirroredGeometry, [])"
    by (simp add: getAttributeAccessor_def mirroredGeometry_def mirroredTriangle_def
        findAttribute_def)
  have pu: "findAttribute (attributeDatas (primitiveDatas unitGeometry ! 0)) ATTR_POSITION =
      Some \<lparr>name = Tag ATTR_POSITION, data = unitPositions\<rparr>"
    by (simp add: unitGeometry_def unitTriangle_def findAttribute_def)
  have iu: "\<forall>e\<in>set (attributeDatas (primitiveDatas unitGeometry ! 0)). \<forall>t.
      name e = Tag t \<longrightarrow>
      length (data e) =
        length (data \<lparr>name = Tag ATTR_POSITION, data = unitPositions\<rparr>) div 3 *
        exampleComponentCount t"
    by (simp add: unitGeometry_def unitTriangle_def exampleComponentCount_def)
  have "length unitPositions = 3 * 3" by simp
  then have d: "3 dvd length (data \<lparr>name = Tag ATTR_POSITION, data = unitPositions\<rparr>)"
    by (simp only: AttributeData.simps dvd_triv_left)
  have c: "exampleComponentCount ATTR_NORMAL = 3" "exampleComponentCount ATTR_TANGENT = 4"
    by (simp_all add: exampleComponentCount_def)
  from C5_resolved_length [OF mirroredGeometry_tangent pm d im c]
    C5_resolved_length [OF nm pm d im c]
    C5_resolved_length [OF unitGeometry_normal pu d iu c]
  show ?thesis by simp
qed

text \<open>A request that returns is answered from the attribute list from then on: the same
  request returns the same array, leaves the geometry as it is and runs no generator.\<close>

lemma returning_request_is_cached:
  assumes "getAttributeAccessor g p tag = Inr (a, g', cs)"
  shows "getAttributeAccessor g' p tag = Inr (a, g', []) \<and>
         count_list cs (NormalGenerator p) \<le> 1 \<and> count_list cs (TangentGenerator p) \<le> 1"
proof -
  from assms obtain pd where pd: "elemAt (primitiveDatas g) p = Some pd"
    by (auto simp: getAttributeAccessor_def split: option.splits)
  show ?thesis
  proof (cases "findAttribute (attributeDatas pd) tag")
    case (Some ad)
    with assms pd show ?thesis by (auto simp: getAttributeAccessor_def)
  next
    case None
    with assms pd have g': "g' = pushAttribute g p \<lparr>name = Tag tag, data = a\<rparr>"
      and cs: "cs = [NormalGenerator p] \<or> cs = [TangentGenerator p]"
      by (auto simp: getAttributeAccessor_def Let_def
          split: AttributeName.splits sum.splits option.splits)
    from pushAttribute_find [OF pd None, of a] g' obtain pd' where
      "elemAt (primitiveDatas g') p = Some pd'"
      "findAttribute (attributeDatas pd') tag = Some \<lparr>name = Tag tag, data = a\<rparr>"
      by auto
    then have "getAttributeAccessor g' p tag = Inr (a, g', [])"
      by (simp add: getAttributeAccessor_def)
    with cs show ?thesis by auto
  qed
qed

text \<open>
  C6. The claim is that two requests for the Tangent attribute of a primitive compute the
  normals at most once and the tangents at most once, and that the second request returns
  the array the first one appended. On a primitive that has neither normals nor tangents,
  which is where the normals would have to be computed, the request throws (the read of
  \<open>data\<close> on source line 84), having run no generator and appended nothing: the primitive
  still has neither attribute, so the second request is the same request on the same
  geometry and throws as well.
\<close>

theorem C6_tangent_request_caches_nothing:
  "getAttributeAccessor noNormalGeometry 0 ATTR_TANGENT = Inl TypeError \<and>
   findAttribute (attributeDatas (primitiveDatas noNormalGeometry ! 0)) ATTR_NORMAL = None \<and>
   findAttribute (attributeDatas (primitiveDatas noNormalGeometry ! 0)) ATTR_TANGENT = None"
  by (simp add: getAttributeAccessor_def noNormalGeometry_def findAttribute_def)

section \<open>The bounds of a primitive without a box\<close>

text \<open>
  C9. The claim is that \<open>getBoundPositions\<close> folds every vertex of the Position attribute
  of a primitive that has no box, so that a box \<open>[(-1,-1,-1), (1,1,1)]\<close> and positions
  spanning \<open>[(0,0,0), (2,2,2)]\<close> give \<open>min = (-1,-1,-1)\<close>, \<open>max = (2,2,2)\<close>. The loop counter
  already advances by three and \<open>createVector3\<close> multiplies it by three again: the second
  pass reads elements 9 to 11 of a six-element array, and both bounds become \<open>NaN\<close>.
\<close>

theorem C9_bounds_of_two_vertices:
  "getBoundPositions twoBoxGeometry = Inr ((NaN, NaN, NaN), (NaN, NaN, NaN))"
proof -
  have v0: "createVector3 [Fin 0, Fin 0, Fin 0, Fin 2, Fin 2, Fin 2] (Some (Fin 0)) =
      (Fin 0, Fin 0, Fin 0)"
    by (simp add: vector_reads)
  have v3: "createVector3 [Fin 0, Fin 0, Fin 0, Fin 2, Fin 2, Fin 2] (Some (Fin 3)) =
      (NaN, NaN, NaN)"
    by (simp add: vector_reads)
  have a: "boundStep (primitiveDatas twoBoxGeometry ! 0)
        ((PosInf, PosInf, PosInf), (NegInf, NegInf, NegInf)) =
      Inr ((Fin (- 1), Fin (- 1), Fin (- 1)), (Fin 1, Fin 1, Fin 1))"
    by (simp add: boundStep_def twoBoxGeometry_def)
  have b: "boundStep (primitiveDatas twoBoxGeometry ! Suc 0)
        ((Fin (- 1), Fin (- 1), Fin (- 1)), (Fin 1, Fin 1, Fin 1)) =
      Inr ((NaN, NaN, NaN), (NaN, NaN, NaN))"
    by (simp add: boundStep_def twoBoxGeometry_def findAttribute_def v0 v3 Let_def)
  have p: "primitiveDatas twoBoxGeometry =
      [primitiveDatas twoBoxGeometry ! 0, primitiveDatas twoBoxGeometry ! Suc 0]"
    by (simp add: twoBoxGeometry_def)
  show ?thesis
    unfolding getBoundPositions_def Let_def
    by (subst p) (simp add: a b)
qed

section \<open>Construction from a source description\<close>

lemma recognized_iff: "(\<exists>t. gltfAttributeMaps key = Tag t) = (key \<in> set recognizedKeys)"
  by (auto simp: gltfAttributeMaps_def recognizedKeys_def)

lemma unrecognized_value:
  "key \<notin> set recognizedKeys \<Longrightarrow>
   gltfAttributeMaps key = (if key \<in> set objectPrototypeKeys then Inherited key else Undefined)"
  by (simp add: gltfAttributeMaps_def recognizedKeys_def)

lemma recognized_inj: "inj_on gltfAttributeMaps (set recognizedKeys)"
  by (simp add: gltfAttributeMaps_def recognizedKeys_def inj_on_def)

lemma customKey_geometry: "creatFromGLTF customKeyGLTF = Inr customKeyGeometry"
  by (simp add: creatFromGLTF_def customKeyGLTF_def gltfAttributeMaps_def
      objectPrototypeKeys_def)

text \<open>
  C3, as stated: an attribute whose source key is not one of the nine recognised keys is
  dropped, producing no stored entry. The key \<open>COLOR_1\<close> is not recognised, and the
  geometry built from a primitive that has it holds a second entry, whose name is
  undefined.
\<close>

theorem C3_unrecognized_key_is_stored:
  "gltfAttributeMaps ''COLOR_1'' = Undefined \<and>
   creatFromGLTF customKeyGLTF = Inr customKeyGeometry"
  by (simp add: creatFromGLTF_def customKeyGLTF_def gltfAttributeMaps_def
      objectPrototypeKeys_def)

text \<open>
  C3, amended: on a source of exactly one mesh, whose accessors the loader has decoded,
  construction returns a geometry that holds, for every primitive, one entry per source
  attribute key, in the order of the keys. The name of the entry is what the read of \<open>gltfAttributeMaps\<close> yields for the key:
  a semantic tag exactly for the nine recognised keys, a different tag for each; for any
  other key the member of \<open>Object.prototype\<close> of that name if there is one, and undefined
  otherwise.
\<close>

theorem C3_one_entry_per_source_key:
  assumes "meshes gltf = [mesh]"
  shows "\<exists>g. creatFromGLTF gltf = Inr g \<and>
           map attributeDatas (primitiveDatas g) =
             map (\<lambda>primitive.
                    map (\<lambda>(key, accessor). \<lparr>name = gltfAttributeMaps key, data = accessor\<rparr>)
                      (attributes primitive))
               (primitives mesh) \<and>
           inj_on gltfAttributeMaps (set recognizedKeys) \<and>
           (\<forall>key. (\<exists>t. gltfAttributeMaps key = Tag t) = (key \<in> set recognizedKeys)) \<and>
           (\<forall>key. key \<notin> set recognizedKeys \<longrightarrow>
              gltfAttributeMaps key =
                (if key \<in> set objectPrototypeKeys then Inherited key else Undefined))"
proof -
  from assms obtain g where g: "creatFromGLTF gltf = Inr g"
    by (simp add: creatFromGLTF_def Let_def)
  with assms have "map attributeDatas (primitiveDatas g) =
             map (\<lambda>primitive.
                    map (\<lambda>(key, accessor). \<lparr>name = gltfAttributeMaps key, data = accessor\<rparr>)
                      (attributes primitive))
               (primitives mesh)"
    by (auto simp: creatFromGLTF_def Let_def comp_def)
  with g show ?thesis
    using recognized_inj recognized_iff unrecognized_value by blast
qed

theorem C3_custom_key_entries:
  "meshes customKeyGLTF = [customKeyMesh] \<and>
   (\<exists>g. creatFromGLTF customKeyGLTF = Inr g \<and>
      map attributeDatas (primitiveDatas g) =
      map (\<lambda>primitive.
             map (\<lambda>(key, accessor). \<lparr>name = gltfAttributeMaps key, data = accessor\<rparr>)
               (attributes primitive))
        (primitives customKeyMesh))"
proof -
  have m: "meshes customKeyGLTF = [customKeyMesh]"
    by (simp add: customKeyGLTF_def)
  from C3_one_entry_per_source_key [OF m] m show ?thesis by blast
qed

section \<open>The setters of the metadata holder\<close>

lemma bindE_simps [simp]: "bindE (Inl e) f = Inl e" "bindE (Inr a) f = f a"
  by (simp_all add: bindE_def)

















section \<open>The decoder of interleaved vertex bundles\<close>

lemma storeComponent_read:
  "storeComponent reader st b cc v c s =
     (case readComponent reader st b v c of
        Inl e \<Rightarrow> Inl e
      | Inr x \<Rightarrow> Inr (s[cc * v + c := x]))"
  by (simp add: storeComponent_def readComponent_def split: option.splits)

text \<open>The loop over the components of vertex \<open>v\<close>, and the loop over the vertices.\<close>

lemma inner_loop:
  assumes "forEach (storeComponent reader st b cc v) [0..<n] s = Inr s'"
  shows "length s' = length s \<and>
         (\<forall>c<n. cc * v + c < length s \<longrightarrow>
            readComponent reader st b v c = Inr (s' ! (cc * v + c))) \<and>
         (\<forall>j. (\<forall>c<n. j \<noteq> cc * v + c) \<longrightarrow> s' ! j = s ! j)"
  using assms
proof (induction n arbitrary: s')
  case 0
  then show ?case by simp
next
  case (Suc n)
  then obtain t where t: "forEach (storeComponent reader st b cc v) [0..<n] s = Inr t"
    and step: "storeComponent reader st b cc v n t = Inr s'"
    by (auto simp: forEach_append split: sum.splits)
  from step obtain x where x: "readComponent reader st b v n = Inr x"
    and s': "s' = t[cc * v + n := x]"
    by (auto simp: storeComponent_read split: sum.splits)
  note IH = Suc.IH [OF t]
  show ?case
  proof (intro conjI allI impI)
    show "length s' = length s" using IH s' by simp
  next
    fix c assume c: "c < Suc n" and r: "cc * v + c < length s"
    show "readComponent reader st b v c = Inr (s' ! (cc * v + c))"
    proof (cases "c = n")
      case True
      with x s' r IH show ?thesis by simp
    next
      case False
      with c have "c < n" by simp
      with IH r False s' show ?thesis by simp
    qed
  next
    fix j assume j: "\<forall>c<Suc n. j \<noteq> cc * v + c"
    then have "j \<noteq> cc * v + n" and "\<forall>c<n. j \<noteq> cc * v + c" by auto
    then show "s' ! j = s ! j" using IH s' by simp
  qed
qed

lemma outer_loop:
  assumes "forEach (\<lambda>v. forEach (storeComponent reader st b cc v) [0..<cc]) [0..<m] s = Inr s'"
  shows "length s' = length s \<and>
         (\<forall>v<m. \<forall>c<cc. cc * v + c < length s \<longrightarrow>
            readComponent reader st b v c = Inr (s' ! (cc * v + c))) \<and>
         (\<forall>j. cc * m \<le> j \<longrightarrow> s' ! j = s ! j)"
  using assms
proof (induction m arbitrary: s')
  case 0
  then show ?case by simp
next
  case (Suc m)
  then obtain t where
    t: "forEach (\<lambda>v. forEach (storeComponent reader st b cc v) [0..<cc]) [0..<m] s = Inr t"
    and last: "forEach (storeComponent reader st b cc m) [0..<cc] t = Inr s'"
    by (auto simp: forEach_append split: sum.splits)
  note IH = Suc.IH [OF t]
  note L = inner_loop [OF last]
  show ?case
  proof (intro conjI allI impI)
    show "length s' = length s" using IH L by simp
  next
    fix v c assume v: "v < Suc m" and c: "c < cc" and r: "cc * v + c < length s"
    show "readComponent reader st b v c = Inr (s' ! (cc * v + c))"
    proof (cases "v = m")
      case True
      with L c r IH show ?thesis by simp
    next
      case False
      with v have vm: "v < m" by simp
      then have "Suc v \<le> m" by simp
      then have "cc * Suc v \<le> cc * m" by (rule mult_le_mono2)
      with c have "cc * v + c < cc * m" by simp
      then have "\<forall>c'<cc. cc * v + c \<noteq> cc * m + c'" by auto
      with L have "s' ! (cc * v + c) = t ! (cc * v + c)" by simp
      with IH vm c r show ?thesis by simp
    qed
  next
    fix j assume j: "cc * Suc m \<le> j"
    then have "\<forall>c<cc. j \<noteq> cc * m + c" by auto
    with L have "s' ! j = t ! j" by simp
    moreover from j have "cc * m \<le> j" by simp
    ultimately show "s' ! j = s ! j" using IH by simp
  qed
qed

lemma decodeAttribute_Inr:
  assumes "decodeAttribute C buf vb ia = Inr av"
    and "v < count (view vb)" and "c < formatCount C (format (attributes' vb ! ia))"
  shows "attribute av = attributes' vb ! ia \<and>
         length (data' av) = count (view vb) * formatCount C (format (attributes' vb ! ia)) \<and>
         decodeAt C (format (attributes' vb ! ia)) buf
           (offset (view vb) + getOffset C (attributes' vb) ia + v * stride (view vb) +
            c * bytesPerElement C (format (attributes' vb ! ia))) =
         Inr (data' av ! (v * formatCount C (format (attributes' vb ! ia)) + c))"
proof -
  let ?fmt = "format (attributes' vb ! ia)"
  let ?cc = "formatCount C ?fmt"
  let ?start = "offset (view vb) + getOffset C (attributes' vb) ia"
  let ?reader = "getReader C buf ?start ?fmt"
  from assms(1) obtain s' where
    loop: "forEach
             (\<lambda>v. forEach
                     (storeComponent ?reader (stride (view vb)) (bytesPerElement C ?fmt) ?cc v)
                     [0..<?cc])
             [0..<count (view vb)] (replicate (count (view vb) * ?cc) (Fin 0)) = Inr s'"
    and av: "av = \<lparr>attribute = attributes' vb ! ia, data' = s'\<rparr>"
    by (auto simp: decodeAttribute_def Let_def split: if_splits sum.splits)
  note O = outer_loop [OF loop]
  have "Suc v \<le> count (view vb)" using assms(2) by simp
  then have "?cc * Suc v \<le> ?cc * count (view vb)" by (rule mult_le_mono2)
  with assms(3) have "?cc * v + c < count (view vb) * ?cc" by (simp add: mult.commute)
  with O assms(2,3)
  have "readComponent ?reader (stride (view vb)) (bytesPerElement C ?fmt) v c =
      Inr (s' ! (?cc * v + c))"
    by simp
  then have "decodeAt C ?fmt buf (?start + (stride (view vb) * v + bytesPerElement C ?fmt * c)) =
      Inr (s' ! (?cc * v + c))"
    by (auto simp: readComponent_def getReader_def split: option.splits if_splits)
  with O av show ?thesis by (simp add: mult.commute add.assoc)
qed

lemma sample_attribute:
  "decodeAttribute byteCocos sampleBuffer sampleBundle 0 =
   Inr \<lparr>attribute = \<lparr>attributeName = ''a_texCoord'', format = ()\<rparr>, data' = sampleDecoded\<rparr>"
  by (simp add: decodeAttribute_def Let_def getReader_def storeComponent_def byteCocos_def
      sampleBundle_def sampleBuffer_def eval_nat_numeral)

lemma sample_mesh:
  "CocosMesh_constructor byteCocos sampleBuffer [sampleBundle] [] =
   Inr \<lparr>bundles =
          [\<lparr>attributeValues =
              [\<lparr>attribute = \<lparr>attributeName = ''a_texCoord'', format = ()\<rparr>,
                data' = sampleDecoded\<rparr>]\<rparr>],
        meshPrimitives = []\<rparr>"
proof -
  have n: "[0..<length (attributes' sampleBundle)] = [0]" by (simp add: sampleBundle_def)
  show ?thesis
    by (simp add: CocosMesh_constructor_def decodeBundle_def n sample_attribute)
qed

text \<open>
  C7. When the constructor returns, the array decoded for attribute \<open>ia\<close> of bundle \<open>iv\<close>
  has \<open>count * componentCount\<close> elements, and its element \<open>v * componentCount + c\<close> is the
  scalar decoded per the format of the attribute at byte position
  \<open>view.offset + getOffset(attributes, ia) + v * view.stride + c * BYTES_PER_ELEMENT\<close> of the
  buffer, for every vertex \<open>v\<close> below \<open>count\<close> and component \<open>c\<close> below \<open>componentCount\<close>.
\<close>

theorem C7_decoded_component:
  assumes "CocosMesh_constructor C arrayBuffer vertexBundles metaPrimitives = Inr mesh"
    and "iv < length vertexBundles"
    and "ia < length (attributes' (vertexBundles ! iv))"
    and "v < count (view (vertexBundles ! iv))"
    and "c < formatCount C (format (attributes' (vertexBundles ! iv) ! ia))"
  shows "length (data' (attributeValues (bundles mesh ! iv) ! ia)) =
           count (view (vertexBundles ! iv)) *
           formatCount C (format (attributes' (vertexBundles ! iv) ! ia)) \<and>
         decodeAt C (format (attributes' (vertexBundles ! iv) ! ia)) arrayBuffer
           (offset (view (vertexBundles ! iv)) + getOffset C (attributes' (vertexBundles ! iv)) ia +
            v * stride (view (vertexBundles ! iv)) +
            c * bytesPerElement C (format (attributes' (vertexBundles ! iv) ! ia))) =
         Inr (data' (attributeValues (bundles mesh ! iv) ! ia) !
                (v * formatCount C (format (attributes' (vertexBundles ! iv) ! ia)) + c))"
proof -
  from assms(1) have "mapE (decodeBundle C arrayBuffer) vertexBundles = Inr (bundles mesh)"
    by (auto simp: CocosMesh_constructor_def split: sum.splits)
  from mapE_Inr [OF this] assms(2)
  have "decodeBundle C arrayBuffer (vertexBundles ! iv) = Inr (bundles mesh ! iv)" by simp
  then obtain avs where
    "mapE (decodeAttribute C arrayBuffer (vertexBundles ! iv))
       [0..<length (attributes' (vertexBundles ! iv))] = Inr avs"
    and "bundles mesh ! iv = \<lparr>attributeValues = avs\<rparr>"
    by (auto simp: decodeBundle_def split: sum.splits)
  then have "mapE (decodeAttribute C arrayBuffer (vertexBundles ! iv))
      [0..<length (attributes' (vertexBundles ! iv))] = Inr (attributeValues (bundles mesh ! iv))"
    by simp
  from mapE_Inr [OF this] assms(3)
  have "decodeAttribute C arrayBuffer (vertexBundles ! iv) ia =
      Inr (attributeValues (bundles mesh ! iv) ! ia)"
    by simp
  from decodeAttribute_Inr [OF this assms(4,5)] show ?thesis by simp
qed

theorem C7_sample_bundle:
  "CocosMesh_constructor byteCocos sampleBuffer [sampleBundle] [] =
   Inr \<lparr>bundles =
          [\<lparr>attributeValues =
              [\<lparr>attribute = \<lparr>attributeName = ''a_texCoord'', format = ()\<rparr>,
                data' = sampleDecoded\<rparr>]\<rparr>],
        meshPrimitives = []\<rparr> \<and>
   length sampleDecoded = 2 * 2 \<and>
   decodeAt byteCocos () sampleBuffer (1 + 0 + 1 * 3 + 1 * 1) = Inr (sampleDecoded ! (1 * 2 + 1))"
proof -
  have h: "0 < length [sampleBundle]" "0 < length (attributes' ([sampleBundle] ! 0))"
    "1 < count (view ([sampleBundle] ! 0))"
    "1 < formatCount byteCocos (format (attributes' ([sampleBundle] ! 0) ! 0))"
    by (simp_all add: sampleBundle_def byteCocos_def)
  from C7_decoded_component [OF sample_mesh h] sample_mesh show ?thesis
    by (simp add: sampleBundle_def byteCocos_def)
qed

end
